theory Spec2Isabelle
  imports Main
begin

section \<open>Job data, results and the world a pipeline handler acts on\<close>

text \<open>
  The worker's processors receive a queue job whose \<open>data\<close> is the object the API routes
  put on the queue. The API's \<open>HyperModalJobData\<close> has a single \<open>sourceUrl\<close> string; the SAR
  processor reads a field \<open>sourceUrls\<close> instead, which is \<open>undefined\<close> unless a caller
  supplies it, hence the option. Of the operation-specific options only those that steer
  control flow or the result are kept (\<open>options.operations\<close> of LiDAR, \<open>options.indices\<close>
  and \<open>options.outputFormat\<close> of the spectral processor); the others are only forwarded
  to the compute service.
\<close>

record JobOptions =
  operations :: "string list option"
  indices :: "string list option"
  outputFormat :: "string option"

record JobData =
  jobId :: string
  userId :: string
  jobType :: string
  operation :: string
  sourceUrl :: string
  sourceUrls :: "string list option"
  options :: "JobOptions option"

text \<open>
  What a processor returns. The timing statistics (\<open>Date.now()\<close> differences) and the
  opaque compute payloads are left out; \<open>res_operations\<close> is \<open>statistics.operations\<close>.
\<close>

record ProcessingResult =
  res_jobId :: string
  res_operation :: string
  res_operations :: "string list"
  res_outputPaths :: "string list"

text \<open>
  The answer of the compute service: opaque but for the three optional image fields that the
  processors test for truthiness before uploading.
\<close>

record ComputeResult =
  ndviImage :: "string option"
  heatmapImage :: "string option"
  anomalyMap :: "string option"

text \<open>
  The external collaborators of a handler. Every call either answers or throws an error,
  whose message is the \<open>Inl\<close> (or \<open>Some\<close>) value:
  \<open>downloadFile\<close> and \<open>uploadFile\<close> are the MinIO client, \<open>mlService\<close> the compute-service client
  (endpoint method name, file paths), \<open>graphragStore\<close> the GraphRAG client (method name,
  job id), \<open>mkdir\<close>, \<open>writeFile\<close> and \<open>unlinkFails\<close> the local file system, and
  \<open>tempDir\<close> is \<open>process.env.TEMP_DIR || '/tmp/geoagent'\<close>.
\<close>

record env =
  tempDir :: string
  downloadFile :: "string \<Rightarrow> string + string"
  uploadFile :: "string \<Rightarrow> string option"
  mlService :: "string \<Rightarrow> string list \<Rightarrow> string + ComputeResult"
  graphragStore :: "string \<Rightarrow> string \<Rightarrow> string + string"
  mkdir :: "string \<Rightarrow> string option"
  writeFile :: "string \<Rightarrow> string option"
  unlinkFails :: "string \<Rightarrow> bool"

text \<open>
  What a handler changes: the progress values reported through \<open>job.updateProgress\<close>, oldest
  first; the temporary files on the worker's disk; the objects uploaded to the object
  store; the documents stored in the knowledge index (by job id).
\<close>

record world =
  progress :: "nat list"
  files :: "string set"
  objects :: "string list"
  documents :: "string list"

definition updateProgress :: "nat \<Rightarrow> world \<Rightarrow> world" where
  "updateProgress p w = w\<lparr>progress := progress w @ [p]\<rparr>"

definition fsWrite :: "string \<Rightarrow> world \<Rightarrow> world" where
  "fsWrite p w = w\<lparr>files := insert p (files w)\<rparr>"

text \<open>\<open>fs.unlink(p).catch(...)\<close>: a failing unlink leaves the file and is swallowed.\<close>

definition unlinkQuiet :: "env \<Rightarrow> string \<Rightarrow> world \<Rightarrow> world" where
  "unlinkQuiet e p w = (if unlinkFails e p then w else w\<lparr>files := files w - {p}\<rparr>)"

definition putObject :: "string \<Rightarrow> world \<Rightarrow> world" where
  "putObject p w = w\<lparr>objects := objects w @ [p]\<rparr>"

definition putDocument :: "string \<Rightarrow> world \<Rightarrow> world" where
  "putDocument d w = w\<lparr>documents := documents w @ [d]\<rparr>"

text \<open>Decimal rendering of a loop index inside a template string.\<close>

definition digit :: "nat \<Rightarrow> char" where
  "digit n = ''0123456789'' ! n"

function string_of_nat :: "nat \<Rightarrow> string" where
  "string_of_nat n = (if n < 10 then [digit n] else string_of_nat (n div 10) @ [digit (n mod 10)])"
  by pat_completeness auto
termination
  by (relation "measure id") auto

declare string_of_nat.simps [simp del]

section \<open>The SAR processor\<close>

text \<open>
  The download loop of \<open>processSARJob\<close>: one temp file per source URL, in order. Here and
  below \<open>path.join(dir, name)\<close> is the directory, a slash and the name.
\<close>

definition sarTempPath :: "env \<Rightarrow> string \<Rightarrow> nat \<Rightarrow> string" where
  "sarTempPath e jid i = tempDir e @ ''/'' @ jid @ ''_sar_'' @ string_of_nat i @ ''.tif''"

fun sarDownload :: "env \<Rightarrow> string \<Rightarrow> string list \<Rightarrow> nat \<Rightarrow> string list \<Rightarrow> world
    \<Rightarrow> (string + string list) \<times> world" where
  "sarDownload e jid [] i tempPaths w = (Inr tempPaths, w)"
| "sarDownload e jid (u # us) i tempPaths w =
     (case downloadFile e u of
        Inl err \<Rightarrow> (Inl err, w)
      | Inr fileBuffer \<Rightarrow>
          (case writeFile e (sarTempPath e jid i) of
             Some err \<Rightarrow> (Inl err, w)
           | None \<Rightarrow> sarDownload e jid us (Suc i) (tempPaths @ [sarTempPath e jid i])
                       (fsWrite (sarTempPath e jid i) w)))"

text \<open>
  One arm of the \<open>switch (operation)\<close>: the input-count check with its message, the compute call,
  then the GraphRAG store call. Neither call is wrapped in a handler of its own.
\<close>

definition sarCase :: "env \<Rightarrow> string \<Rightarrow> string \<Rightarrow> string \<Rightarrow> string list \<Rightarrow> world
    \<Rightarrow> (string + unit) \<times> world" where
  "sarCase e jid tooFew mlMethod tempPaths w =
     (if length tempPaths < 2 then (Inl tooFew, w)
      else case mlService e mlMethod tempPaths of
             Inl err \<Rightarrow> (Inl err, w)
           | Inr r \<Rightarrow>
               (case graphragStore e ''storeSARAnalysis'' jid of
                  Inl err \<Rightarrow> (Inl err, w)
                | Inr doc \<Rightarrow> (Inr (), putDocument jid w)))"

definition sarSwitch :: "env \<Rightarrow> JobData \<Rightarrow> string list \<Rightarrow> world \<Rightarrow> (string + unit) \<times> world" where
  "sarSwitch e d tempPaths w =
     (if operation d = ''interferometry'' then
        sarCase e (jobId d) ''Interferometry requires at least 2 SAR images''
          ''processInterferometry'' tempPaths w
      else if operation d = ''coherence'' then
        sarCase e (jobId d) ''Coherence calculation requires at least 2 SAR images''
          ''calculateCoherence'' tempPaths w
      else if operation d = ''change_detection'' then
        sarCase e (jobId d) ''Change detection requires at least 2 SAR images''
          ''detectSARChanges'' tempPaths w
      else (Inl (''Unknown SAR operation: '' @ operation d), w))"

fun unlinkAll :: "env \<Rightarrow> string list \<Rightarrow> world \<Rightarrow> world" where
  "unlinkAll e [] w = w"
| "unlinkAll e (p # ps) w = unlinkAll e ps (unlinkQuiet e p w)"

text \<open>
  \<open>processSARJob\<close>. Its \<open>catch\<close> block logs and rethrows, so an error of any stage is the
  error of the handler and the world is left as the failing stage left it.
\<close>

definition processSARJob :: "env \<Rightarrow> JobData \<Rightarrow> world \<Rightarrow> (string + ProcessingResult) \<times> world" where
  "processSARJob e d w0 =
     (let w1 = updateProgress 10 w0 in
      case mkdir e (tempDir e) of
        Some err \<Rightarrow> (Inl err, w1)
      | None \<Rightarrow>
          (case sarDownload e (jobId d) (case sourceUrls d of None \<Rightarrow> [] | Some us \<Rightarrow> us) 0 [] w1 of
             (Inl err, w2) \<Rightarrow> (Inl err, w2)
           | (Inr tempPaths, w2) \<Rightarrow>
               (case sarSwitch e d tempPaths (updateProgress 30 w2) of
                  (Inl err, w3) \<Rightarrow> (Inl err, w3)
                | (Inr u, w3) \<Rightarrow>
                    (Inr \<lparr>res_jobId = jobId d, res_operation = operation d,
                          res_operations = [operation d], res_outputPaths = []\<rparr>,
                     updateProgress 100 (unlinkAll e tempPaths (updateProgress 80 w3))))))"

section \<open>The LiDAR processor\<close>

definition handleLiDARIngestion :: "env \<Rightarrow> JobData \<Rightarrow> world \<Rightarrow> (string + ProcessingResult) \<times> world" where
  "handleLiDARIngestion e d w =
     (Inr \<lparr>res_jobId = jobId d, res_operation = ''ingest'',
           res_operations = [''ingest''], res_outputPaths = [sourceUrl d]\<rparr>,
      updateProgress 100 (updateProgress 50 w))"

definition lidarOperations :: "JobData \<Rightarrow> string list" where
  "lidarOperations d =
     (case options d of None \<Rightarrow> []
      | Some opts \<Rightarrow> (case operations opts of None \<Rightarrow> [] | Some ops \<Rightarrow> ops))"

definition lidarTempPath :: "env \<Rightarrow> JobData \<Rightarrow> string" where
  "lidarTempPath e d = tempDir e @ ''/'' @ jobId d @ ''.las''"

definition lidarResultPath :: "JobData \<Rightarrow> string" where
  "lidarResultPath d = ''processed/'' @ jobId d @ ''/results.json''"

text \<open>Step 3 of \<open>handleLiDARProcessing\<close>: the optional classification call.\<close>

definition lidarClassify :: "env \<Rightarrow> JobData \<Rightarrow> world \<Rightarrow> (string + unit) \<times> world" where
  "lidarClassify e d w =
     (if ''classify_ground'' \<in> set (lidarOperations d) \<or> ''extract_buildings'' \<in> set (lidarOperations d)
      then (case mlService e ''classifyLiDAR'' [lidarTempPath e d] of
              Inl err \<Rightarrow> (Inl err, w)
            | Inr r \<Rightarrow> (Inr (), updateProgress 60 w))
      else (Inr (), w))"

text \<open>Step 4: the elevation-model placeholder, which only reports progress.\<close>

definition lidarElevation :: "JobData \<Rightarrow> world \<Rightarrow> world" where
  "lidarElevation d w =
     (if ''dem'' \<in> set (lidarOperations d) \<or> ''dsm'' \<in> set (lidarOperations d)
          \<or> ''chm'' \<in> set (lidarOperations d)
      then updateProgress 80 w else w)"

text \<open>Steps 5 to 7: upload, GraphRAG store, removal of the temp file, result.\<close>

definition lidarFinish :: "env \<Rightarrow> JobData \<Rightarrow> world \<Rightarrow> (string + ProcessingResult) \<times> world" where
  "lidarFinish e d w =
     (case uploadFile e (lidarResultPath d) of
        Some err \<Rightarrow> (Inl err, w)
      | None \<Rightarrow>
          (case graphragStore e ''storeLiDARAnalysis'' (jobId d) of
             Inl err \<Rightarrow> (Inl err, updateProgress 90 (putObject (lidarResultPath d) w))
           | Inr doc \<Rightarrow>
               (Inr \<lparr>res_jobId = jobId d, res_operation = ''process'',
                     res_operations = lidarOperations d, res_outputPaths = [lidarResultPath d]\<rparr>,
                unlinkQuiet e (lidarTempPath e d)
                  (updateProgress 100 (putDocument (jobId d)
                     (updateProgress 90 (putObject (lidarResultPath d) w)))))))"

text \<open>The body of the \<open>try\<close> block of \<open>handleLiDARProcessing\<close>.\<close>

definition lidarTry :: "env \<Rightarrow> JobData \<Rightarrow> world \<Rightarrow> (string + ProcessingResult) \<times> world" where
  "lidarTry e d w0 =
     (let w1 = updateProgress 10 w0 in
      case downloadFile e (sourceUrl d) of
        Inl err \<Rightarrow> (Inl err, w1)
      | Inr fileBuffer \<Rightarrow>
          (let w2 = updateProgress 20 w1 in
           case mkdir e (tempDir e) of
             Some err \<Rightarrow> (Inl err, w2)
           | None \<Rightarrow>
               (case writeFile e (lidarTempPath e d) of
                  Some err \<Rightarrow> (Inl err, w2)
                | None \<Rightarrow>
                    (case lidarClassify e d (updateProgress 30 (fsWrite (lidarTempPath e d) w2)) of
                       (Inl err, w3) \<Rightarrow> (Inl err, w3)
                     | (Inr u, w3) \<Rightarrow> lidarFinish e d (lidarElevation d w3)))))"

text \<open>The \<open>catch\<close> block removes the temp file (quietly) and rethrows.\<close>

definition handleLiDARProcessing :: "env \<Rightarrow> JobData \<Rightarrow> world \<Rightarrow> (string + ProcessingResult) \<times> world" where
  "handleLiDARProcessing e d w =
     (case lidarTry e d w of
        (Inl err, w') \<Rightarrow> (Inl err, unlinkQuiet e (lidarTempPath e d) w')
      | (Inr r, w') \<Rightarrow> (Inr r, w'))"

definition processLiDARJob :: "env \<Rightarrow> JobData \<Rightarrow> world \<Rightarrow> (string + ProcessingResult) \<times> world" where
  "processLiDARJob e d w0 =
     (let w1 = updateProgress 10 w0 in
      if operation d = ''ingest'' then handleLiDARIngestion e d w1
      else if operation d = ''process'' then handleLiDARProcessing e d w1
      else (Inl (''Unknown LiDAR operation: '' @ operation d), w1))"

section \<open>The fusion processor\<close>

text \<open>A placeholder: two progress reports and the pair \<open>(jobId, operation)\<close>.\<close>

definition processFusionJob :: "JobData \<Rightarrow> world \<Rightarrow> (string \<times> string) \<times> world" where
  "processFusionJob d w = ((jobId d, operation d), updateProgress 100 (updateProgress 50 w))"

section \<open>The spectral processor\<close>

text \<open>
  Four of the five operation handlers have one shape: progress 30, the compute call,
  progress 70, upload of the JSON result under \<open>processed/<jobId>/\<close>, the GraphRAG store
  call, progress 100. They differ in the compute method, the object name and the labels of the
  result, which are the parameters of \<open>spectralStages\<close>.
\<close>

definition processedPath :: "JobData \<Rightarrow> string \<Rightarrow> string" where
  "processedPath d name = ''processed/'' @ jobId d @ ''/'' @ name"

definition spectralStages :: "env \<Rightarrow> JobData \<Rightarrow> string \<Rightarrow> string \<Rightarrow> string \<Rightarrow> string \<Rightarrow> string list
    \<Rightarrow> world \<Rightarrow> (string + ProcessingResult) \<times> world" where
  "spectralStages e d filePath mlMethod name opName opLabels w0 =
     (let w1 = updateProgress 30 w0 in
      case mlService e mlMethod [filePath] of
        Inl err \<Rightarrow> (Inl err, w1)
      | Inr r \<Rightarrow>
          (let w2 = updateProgress 70 w1 in
           case uploadFile e (processedPath d name) of
             Some err \<Rightarrow> (Inl err, w2)
           | None \<Rightarrow>
               (case graphragStore e ''storeSpectralAnalysis'' (jobId d) of
                  Inl err \<Rightarrow> (Inl err, putObject (processedPath d name) w2)
                | Inr doc \<Rightarrow>
                    (Inr \<lparr>res_jobId = jobId d, res_operation = opName,
                          res_operations = opLabels, res_outputPaths = [processedPath d name]\<rparr>,
                     updateProgress 100 (putDocument (jobId d)
                       (putObject (processedPath d name) w2))))))"

definition handleUnmixing :: "env \<Rightarrow> JobData \<Rightarrow> string \<Rightarrow> world \<Rightarrow> (string + ProcessingResult) \<times> world" where
  "handleUnmixing e d filePath w =
     spectralStages e d filePath ''spectralUnmix'' ''unmixing_results.json'' ''unmix'' [''unmix''] w"

definition handleMaterialIdentification :: "env \<Rightarrow> JobData \<Rightarrow> string \<Rightarrow> world
    \<Rightarrow> (string + ProcessingResult) \<times> world" where
  "handleMaterialIdentification e d filePath w =
     spectralStages e d filePath ''identifyMaterials'' ''materials_results.json'' ''identify''
       [''identify''] w"

definition handleMineralMapping :: "env \<Rightarrow> JobData \<Rightarrow> string \<Rightarrow> world
    \<Rightarrow> (string + ProcessingResult) \<times> world" where
  "handleMineralMapping e d filePath w =
     spectralStages e d filePath ''mapMinerals'' ''mineral_results.json'' ''minerals''
       [''mineral_mapping''] w"

definition handleWaterQualityAnalysis :: "env \<Rightarrow> JobData \<Rightarrow> string \<Rightarrow> world
    \<Rightarrow> (string + ProcessingResult) \<times> world" where
  "handleWaterQualityAnalysis e d filePath w =
     spectralStages e d filePath ''analyzeWaterQuality'' ''water_quality_results.json''
       ''water_quality'' [''water_quality''] w"

text \<open>
  The vegetation handler uploads one more object, the NDVI image, when the output format
  is \<open>geotiff\<close> or \<open>png\<close> and the compute answer carries the image.
\<close>

definition vegIndices :: "JobData \<Rightarrow> string list" where
  "vegIndices d =
     (case options d of None \<Rightarrow> [''ndvi'', ''evi'', ''savi'']
      | Some opts \<Rightarrow> (case indices opts of None \<Rightarrow> [''ndvi'', ''evi'', ''savi''] | Some is \<Rightarrow> is))"

definition ndviTarget :: "JobData \<Rightarrow> ComputeResult \<Rightarrow> string option" where
  "ndviTarget d r =
     (case options d of None \<Rightarrow> None
      | Some opts \<Rightarrow>
          (case outputFormat opts of None \<Rightarrow> None
           | Some fmt \<Rightarrow>
               (if (fmt = ''geotiff'' \<or> fmt = ''png'') \<and> ndviImage r \<noteq> None
                then Some (processedPath d (''ndvi.'' @ fmt)) else None)))"

definition uploadOptional :: "env \<Rightarrow> string option \<Rightarrow> world \<Rightarrow> (string + unit) \<times> world" where
  "uploadOptional e target w =
     (case target of None \<Rightarrow> (Inr (), w)
      | Some p \<Rightarrow> (case uploadFile e p of Some err \<Rightarrow> (Inl err, w) | None \<Rightarrow> (Inr (), putObject p w)))"

definition handleVegetationAnalysis :: "env \<Rightarrow> JobData \<Rightarrow> string \<Rightarrow> world
    \<Rightarrow> (string + ProcessingResult) \<times> world" where
  "handleVegetationAnalysis e d filePath w0 =
     (let w1 = updateProgress 30 w0 in
      case mlService e ''calculateVegetationIndices'' [filePath] of
        Inl err \<Rightarrow> (Inl err, w1)
      | Inr r \<Rightarrow>
          (let w2 = updateProgress 70 w1 in
           case uploadFile e (processedPath d ''vegetation_results.json'') of
             Some err \<Rightarrow> (Inl err, w2)
           | None \<Rightarrow>
               (case uploadOptional e (ndviTarget d r)
                       (putObject (processedPath d ''vegetation_results.json'') w2) of
                  (Inl err, w3) \<Rightarrow> (Inl err, w3)
                | (Inr u, w3) \<Rightarrow>
                    (case graphragStore e ''storeSpectralAnalysis'' (jobId d) of
                       Inl err \<Rightarrow> (Inl err, w3)
                     | Inr doc \<Rightarrow>
                         (Inr \<lparr>res_jobId = jobId d, res_operation = ''vegetation'',
                               res_operations = vegIndices d,
                               res_outputPaths = [processedPath d ''vegetation_results.json'']\<rparr>,
                          updateProgress 100 (putDocument (jobId d) w3))))))"

definition spectralSwitch :: "env \<Rightarrow> JobData \<Rightarrow> string \<Rightarrow> world
    \<Rightarrow> (string + ProcessingResult) \<times> world" where
  "spectralSwitch e d tempPath w =
     (if operation d = ''unmix'' then handleUnmixing e d tempPath w
      else if operation d = ''identify'' then handleMaterialIdentification e d tempPath w
      else if operation d = ''vegetation'' then handleVegetationAnalysis e d tempPath w
      else if operation d = ''minerals'' then handleMineralMapping e d tempPath w
      else if operation d = ''water_quality'' then handleWaterQualityAnalysis e d tempPath w
      else (Inl (''Unknown spectral operation: '' @ operation d), w))"

text \<open>
  The frame shared by \<open>processSpectralJob\<close> and \<open>processThermalJob\<close>: progress 10,
  download, \<open>mkdir\<close>, write of the temp file, progress 20, the operation switch, and the
  removal of the temp file after the switch returned. An error is logged and rethrown by
  the \<open>catch\<close> block, which removes nothing.
\<close>

definition singleFileJob :: "env \<Rightarrow> JobData \<Rightarrow> string
    \<Rightarrow> (string \<Rightarrow> world \<Rightarrow> (string + ProcessingResult) \<times> world)
    \<Rightarrow> world \<Rightarrow> (string + ProcessingResult) \<times> world" where
  "singleFileJob e d tempPath switch w0 =
     (let w1 = updateProgress 10 w0 in
      case downloadFile e (sourceUrl d) of
        Inl err \<Rightarrow> (Inl err, w1)
      | Inr fileBuffer \<Rightarrow>
          (case mkdir e (tempDir e) of
             Some err \<Rightarrow> (Inl err, w1)
           | None \<Rightarrow>
               (case writeFile e tempPath of
                  Some err \<Rightarrow> (Inl err, w1)
                | None \<Rightarrow>
                    (case switch tempPath (updateProgress 20 (fsWrite tempPath w1)) of
                       (Inl err, w2) \<Rightarrow> (Inl err, w2)
                     | (Inr r, w2) \<Rightarrow> (Inr r, unlinkQuiet e tempPath w2)))))"

definition spectralTempPath :: "env \<Rightarrow> JobData \<Rightarrow> string" where
  "spectralTempPath e d = tempDir e @ ''/'' @ jobId d @ ''_spectral.tif''"

definition processSpectralJob :: "env \<Rightarrow> JobData \<Rightarrow> world \<Rightarrow> (string + ProcessingResult) \<times> world" where
  "processSpectralJob e d w = singleFileJob e d (spectralTempPath e d) (spectralSwitch e d) w"

section \<open>The thermal processor\<close>

text \<open>
  The thermal handlers: progress 30, the compute call, progress 70, the upload (of the image
  when the answer has one, or of the JSON result), the GraphRAG store call, progress 100.
  \<open>target\<close> computes the object to upload from the compute answer.
\<close>

definition thermalStages :: "env \<Rightarrow> JobData \<Rightarrow> string \<Rightarrow> string \<Rightarrow> (ComputeResult \<Rightarrow> string option) \<Rightarrow> string
    \<Rightarrow> world \<Rightarrow> (string + ProcessingResult) \<times> world" where
  "thermalStages e d filePath mlMethod target opName w0 =
     (let w1 = updateProgress 30 w0 in
      case mlService e mlMethod [filePath] of
        Inl err \<Rightarrow> (Inl err, w1)
      | Inr r \<Rightarrow>
          (case uploadOptional e (target r) (updateProgress 70 w1) of
             (Inl err, w2) \<Rightarrow> (Inl err, w2)
           | (Inr u, w2) \<Rightarrow>
               (case graphragStore e ''storeThermalAnalysis'' (jobId d) of
                  Inl err \<Rightarrow> (Inl err, w2)
                | Inr doc \<Rightarrow>
                    (Inr \<lparr>res_jobId = jobId d, res_operation = opName, res_operations = [opName],
                          res_outputPaths = (case target r of None \<Rightarrow> [] | Some p \<Rightarrow> [p])\<rparr>,
                     updateProgress 100 (putDocument (jobId d) w2)))))"

definition handleHeatmap :: "env \<Rightarrow> JobData \<Rightarrow> string \<Rightarrow> world \<Rightarrow> (string + ProcessingResult) \<times> world" where
  "handleHeatmap e d filePath w =
     thermalStages e d filePath ''generateHeatmap''
       (\<lambda>r. if heatmapImage r \<noteq> None then Some (processedPath d ''heatmap.png'') else None)
       ''heatmap'' w"

definition handleAnomalyDetection :: "env \<Rightarrow> JobData \<Rightarrow> string \<Rightarrow> world
    \<Rightarrow> (string + ProcessingResult) \<times> world" where
  "handleAnomalyDetection e d filePath w =
     thermalStages e d filePath ''detectAnomalies''
       (\<lambda>r. if anomalyMap r \<noteq> None then Some (processedPath d ''anomaly_map.png'') else None)
       ''anomaly_detection'' w"

definition handleTemperatureExtraction :: "env \<Rightarrow> JobData \<Rightarrow> string \<Rightarrow> world
    \<Rightarrow> (string + ProcessingResult) \<times> world" where
  "handleTemperatureExtraction e d filePath w =
     thermalStages e d filePath ''extractTemperatures''
       (\<lambda>r. Some (processedPath d ''temperatures.json'')) ''temperature_extract'' w"

definition thermalSwitch :: "env \<Rightarrow> JobData \<Rightarrow> string \<Rightarrow> world
    \<Rightarrow> (string + ProcessingResult) \<times> world" where
  "thermalSwitch e d tempPath w =
     (if operation d = ''heatmap'' then handleHeatmap e d tempPath w
      else if operation d = ''anomaly_detection'' then handleAnomalyDetection e d tempPath w
      else if operation d = ''temperature_extract'' then handleTemperatureExtraction e d tempPath w
      else (Inl (''Unknown thermal operation: '' @ operation d), w))"

definition thermalTempPath :: "env \<Rightarrow> JobData \<Rightarrow> string" where
  "thermalTempPath e d = tempDir e @ ''/'' @ jobId d @ ''_thermal.tif''"

definition processThermalJob :: "env \<Rightarrow> JobData \<Rightarrow> world \<Rightarrow> (string + ProcessingResult) \<times> world" where
  "processThermalJob e d w = singleFileJob e d (thermalTempPath e d) (thermalSwitch e d) w"

section \<open>The worker's job processor\<close>

datatype JobResult = Analysis ProcessingResult | Placeholder string string

definition analysed :: "(string + ProcessingResult) \<times> world \<Rightarrow> (string + JobResult) \<times> world" where
  "analysed rw = (case rw of (Inl err, w) \<Rightarrow> (Inl err, w) | (Inr r, w) \<Rightarrow> (Inr (Analysis r), w))"

text \<open>
  \<open>processJob\<close> routes by \<open>jobType\<close>; its \<open>catch\<close> block logs and rethrows, so the queue
  library sees the handler's error as the failure of the attempt.
\<close>

definition processJob :: "env \<Rightarrow> JobData \<Rightarrow> world \<Rightarrow> (string + JobResult) \<times> world" where
  "processJob e d w =
     (if jobType d = ''lidar'' then analysed (processLiDARJob e d w)
      else if jobType d = ''spectral'' then analysed (processSpectralJob e d w)
      else if jobType d = ''sar'' then analysed (processSARJob e d w)
      else if jobType d = ''thermal'' then analysed (processThermalJob e d w)
      else if jobType d = ''fusion'' then
        (case processFusionJob d w of ((jid, oper), w') \<Rightarrow> (Inr (Placeholder jid oper), w'))
      else (Inl (''Unknown job type: '' @ jobType d), w))"

section \<open>The job queue\<close>

text \<open>
  \<open>HyperModalJobQueue\<close> wraps a queue of the queue library, kept in Redis. The library's
  store is modelled as the list of its job records in the order they were added; the
  record has the fields the source reads (\<open>id\<close>, \<open>name\<close>, \<open>data\<close>, \<open>progress\<close>,
  \<open>returnvalue\<close>, \<open>failedReason\<close>, \<open>attemptsMade\<close>), the options the source passes
  (\<open>priority\<close>, \<open>attempts\<close>, \<open>backoff.delay\<close>), the state that \<open>getState\<close> answers and the
  delay before the next attempt. \<open>redisError\<close> stands for a broken Redis connection: while
  it is set, every call of the library throws an error with that message, which is what
  the \<open>catch\<close> blocks of the source handle.
\<close>

datatype JobState = Waiting | Active | Completed | Failed | Delayed

record QueueJob =
  job_id :: string
  job_name :: string
  job_data :: JobData
  job_priority :: nat
  job_attempts :: nat
  job_backoffDelay :: nat
  job_state :: JobState
  job_progress :: nat
  job_attemptsMade :: nat
  job_returnvalue :: "JobResult option"
  job_failedReason :: "string option"
  job_delay :: nat

record Queue =
  jobs :: "(string \<times> QueueJob) list"
  redisError :: "string option"

text \<open>
  The library validates the options of a new job before it stores anything, and throws
  when they are refused. A custom job id is refused when it reads as an integer, which
  the library tests by \<open>`${parseInt(id, 10)}` === id\<close>: the id is a decimal numeral without
  leading zeros, with or without a minus sign, or the string \<open>NaN\<close>. It is also refused
  when it contains a colon, and a priority is refused when it exceeds 2097151. Two corners
  are treated as refusals although the library may accept them: a numeral too long to be
  exact as a double, and an id of the three-part colon form that the library still
  tolerates. An empty job id makes the library generate an id of its own; the queue here
  stores the job under the id it is given, so what is proved about ids is stated for
  non-empty ones.
\<close>

definition isDigit :: "char \<Rightarrow> bool" where
  "isDigit c = (c \<in> set ''0123456789'')"

definition canonicalNat :: "string \<Rightarrow> bool" where
  "canonicalNat s =
     (case s of
        [] \<Rightarrow> False
      | c # cs \<Rightarrow> list_all isDigit s \<and> (if c = CHR ''0'' then cs = [] else True))"

definition integerId :: "string \<Rightarrow> bool" where
  "integerId s =
     (s = ''NaN'' \<or> canonicalNat s
      \<or> (case s of
            [] \<Rightarrow> False
          | c # cs \<Rightarrow> c = CHR ''-'' \<and> (if cs = ''0'' then False else canonicalNat cs)))"

definition validateOptions :: "string \<Rightarrow> nat \<Rightarrow> string option" where
  "validateOptions jid priority =
     (if integerId jid then Some ''Custom Id cannot be integers''
      else if CHR '':'' \<in> set jid then Some ''Custom Id cannot contain :''
      else if priority > 2097151 then Some ''Priority should be between 0 and 2097151''
      else None)"

text \<open>
  The library calls the source makes. \<open>queueAdd\<close> is \<open>queue.add(name, data, opts)\<close> with a
  custom \<open>jobId\<close>: the options are validated; then, by the library's contract, an id that
  is already present is not added again and the stored job is left as it is, and the call
  answers a job handle either way. \<open>queueGetJob\<close> is \<open>queue.getJob\<close>, \<open>jobRemove\<close> is
  \<open>job.remove()\<close>.
\<close>

definition newJob :: "string \<Rightarrow> JobData \<Rightarrow> string \<Rightarrow> nat \<Rightarrow> nat \<Rightarrow> nat \<Rightarrow> QueueJob" where
  "newJob name d jid priority attempts delay =
     \<lparr>job_id = jid, job_name = name, job_data = d, job_priority = priority,
      job_attempts = attempts, job_backoffDelay = delay, job_state = Waiting,
      job_progress = 0, job_attemptsMade = 0, job_returnvalue = None,
      job_failedReason = None, job_delay = 0\<rparr>"

definition queueAdd :: "Queue \<Rightarrow> string \<Rightarrow> JobData \<Rightarrow> string \<Rightarrow> nat \<Rightarrow> nat \<Rightarrow> nat
    \<Rightarrow> (string + QueueJob) \<times> Queue" where
  "queueAdd q name d jid priority attempts delay =
     (case redisError q of
        Some msg \<Rightarrow> (Inl msg, q)
      | None \<Rightarrow>
          (case validateOptions jid priority of
             Some msg \<Rightarrow> (Inl msg, q)
           | None \<Rightarrow>
               (case map_of (jobs q) jid of
                  Some j \<Rightarrow> (Inr (newJob name d jid priority attempts delay), q)
                | None \<Rightarrow> (Inr (newJob name d jid priority attempts delay),
                           q\<lparr>jobs := jobs q @ [(jid, newJob name d jid priority attempts delay)]\<rparr>))))"

definition queueGetJob :: "Queue \<Rightarrow> string \<Rightarrow> string + QueueJob option" where
  "queueGetJob q jid =
     (case redisError q of Some msg \<Rightarrow> Inl msg | None \<Rightarrow> Inr (map_of (jobs q) jid))"

definition jobRemove :: "Queue \<Rightarrow> string \<Rightarrow> (string + unit) \<times> Queue" where
  "jobRemove q jid =
     (case redisError q of
        Some msg \<Rightarrow> (Inl msg, q)
      | None \<Rightarrow> (Inr (), q\<lparr>jobs := filter (\<lambda>(k, j). k \<noteq> jid) (jobs q)\<rparr>))"

text \<open>
  \<open>addJob(jobData, priority = 5)\<close>: the job id and the priority are forwarded as they are,
  with \<open>attempts: 3\<close> and an exponential backoff of base \<open>5000\<close> ms. Any error of the
  library is rethrown with the prefix \<open>Failed to add job to queue: \<close>.
\<close>

definition addJob :: "Queue \<Rightarrow> JobData \<Rightarrow> nat option \<Rightarrow> (string + QueueJob) \<times> Queue" where
  "addJob q d priority =
     (case queueAdd q (jobType d) d (jobId d) (case priority of None \<Rightarrow> 5 | Some p \<Rightarrow> p) 3 5000 of
        (Inl msg, q') \<Rightarrow> (Inl (''Failed to add job to queue: '' @ msg), q')
      | (Inr job, q') \<Rightarrow> (Inr job, q'))"

definition getJob :: "Queue \<Rightarrow> string \<Rightarrow> string + QueueJob option" where
  "getJob q jid =
     (case queueGetJob q jid of
        Inl msg \<Rightarrow> Inl (''Failed to get job: '' @ msg)
      | Inr job \<Rightarrow> Inr job)"

text \<open>
  \<open>cancelJob\<close>: \<open>false\<close> for an unknown job and for a job whose state is \<open>completed\<close> or
  \<open>failed\<close>; otherwise the job is removed from the queue and the answer is \<open>true\<close>.
\<close>

definition cancelJob :: "Queue \<Rightarrow> string \<Rightarrow> (string + bool) \<times> Queue" where
  "cancelJob q jid =
     (case queueGetJob q jid of
        Inl msg \<Rightarrow> (Inl (''Failed to cancel job: '' @ msg), q)
      | Inr None \<Rightarrow> (Inr False, q)
      | Inr (Some job) \<Rightarrow>
          (if job_state job = Completed \<or> job_state job = Failed then (Inr False, q)
           else case jobRemove q jid of
                  (Inl msg, q') \<Rightarrow> (Inl (''Failed to cancel job: '' @ msg), q')
                | (Inr u, q') \<Rightarrow> (Inr True, q')))"

section \<open>The job management routes\<close>

text \<open>
  An HTTP answer: the job view of \<open>GET /jobs/:jobId\<close> (status 200), the confirmation of a
  cancellation (200, with the job id), the acceptance of a new job (202, with the job id),
  or an error with its status code and its \<open>error\<close> field.
\<close>

datatype Response =
    JobStatus QueueJob
  | Cancelled string
  | Accepted string
  | Error nat string

definition getJobRoute :: "Queue \<Rightarrow> string \<Rightarrow> Response" where
  "getJobRoute q jid =
     (case getJob q jid of
        Inl msg \<Rightarrow> Error 500 ''STATUS_QUERY_FAILED''
      | Inr None \<Rightarrow> Error 404 ''JOB_NOT_FOUND''
      | Inr (Some job) \<Rightarrow> JobStatus job)"

definition deleteJobRoute :: "Queue \<Rightarrow> string \<Rightarrow> Response \<times> Queue" where
  "deleteJobRoute q jid =
     (case cancelJob q jid of
        (Inl msg, q') \<Rightarrow> (Error 500 ''CANCELLATION_FAILED'', q')
      | (Inr cancelled, q') \<Rightarrow>
          (if \<not> cancelled then (Error 404 ''CANNOT_CANCEL'', q')
           else (Cancelled jid, q')))"

text \<open>The requests the job routes and the queue serve, one after the other.\<close>

datatype Request = GetJob string | DeleteJob string | AddJob JobData "nat option"

fun serve :: "Queue \<Rightarrow> Request \<Rightarrow> Queue" where
  "serve q (GetJob jid) = q"
| "serve q (DeleteJob jid) = snd (deleteJobRoute q jid)"
| "serve q (AddJob d priority) = snd (addJob q d priority)"

fun serveAll :: "Queue \<Rightarrow> Request list \<Rightarrow> Queue" where
  "serveAll q [] = q"
| "serveAll q (r # rs) = serveAll (serve q r) rs"

fun addsJob :: "string \<Rightarrow> Request \<Rightarrow> bool" where
  "addsJob jid (AddJob d priority) = (jobId d = jid)"
| "addsJob jid r = False"

section \<open>The SAR routes\<close>

text \<open>
  \<open>POST /sar/ingest\<close> and \<open>POST /sar/change\<close>. The job id is a fresh UUID and the user id
  comes from the request; both are parameters, as are the answer of the API's MinIO
  upload and the error, if any, of parsing the \<open>metadata\<close> field of the request. The job
  data carries \<open>sourceUrl\<close> and no \<open>sourceUrls\<close>; the \<open>options\<close> of the change route hold
  only \<open>method\<close>, which no processor reads.
\<close>

definition sarIngestData :: "string \<Rightarrow> string \<Rightarrow> string \<Rightarrow> JobData" where
  "sarIngestData jid uid minioPath =
     \<lparr>jobId = jid, userId = uid, jobType = ''sar'', operation = ''ingest'',
      sourceUrl = minioPath, sourceUrls = None, options = None\<rparr>"

definition sarChangeData :: "string \<Rightarrow> string \<Rightarrow> string \<Rightarrow> string \<Rightarrow> JobData" where
  "sarChangeData jid uid before after =
     \<lparr>jobId = jid, userId = uid, jobType = ''sar'', operation = ''change'',
      sourceUrl = before @ '','' @ after, sourceUrls = None,
      options = Some \<lparr>operations = None, indices = None, outputFormat = None\<rparr>\<rparr>"

definition postSarIngest :: "Queue \<Rightarrow> (string \<Rightarrow> string + string) \<Rightarrow> string option
    \<Rightarrow> string option \<Rightarrow> string \<Rightarrow> string \<Rightarrow> Response \<times> Queue" where
  "postSarIngest q upload file metadataError jid uid =
     (case file of
        None \<Rightarrow> (Error 400 ''NO_FILE_PROVIDED'', q)
      | Some filename \<Rightarrow>
          (case upload (''raw/'' @ jid @ ''/'' @ filename) of
             Inl msg \<Rightarrow> (Error 500 ''INGESTION_FAILED'', q)
           | Inr minioPath \<Rightarrow>
               (case metadataError of
                  Some msg \<Rightarrow> (Error 500 ''INGESTION_FAILED'', q)
                | None \<Rightarrow>
                    (case addJob q (sarIngestData jid uid minioPath) (Some 5) of
                       (Inl msg, q') \<Rightarrow> (Error 500 ''INGESTION_FAILED'', q')
                     | (Inr job, q') \<Rightarrow> (Accepted jid, q')))))"

definition postSarChange :: "Queue \<Rightarrow> string option \<Rightarrow> string option \<Rightarrow> string \<Rightarrow> string
    \<Rightarrow> Response \<times> Queue" where
  "postSarChange q before_dataset after_dataset jid uid =
     (case (before_dataset, after_dataset) of
        (Some before, Some after) \<Rightarrow>
          (case addJob q (sarChangeData jid uid before after) (Some 7) of
             (Inl msg, q') \<Rightarrow> (Error 500 ''CHANGE_DETECTION_FAILED'', q')
           | (Inr job, q') \<Rightarrow> (Accepted jid, q'))
      | _ \<Rightarrow> (Error 400 ''MISSING_DATASETS'', q))"

section \<open>The simple queue service\<close>

text \<open>
  \<open>QueueService.enqueue\<close> builds the job id from the clock and a random suffix (both
  parameters here, as rendered strings), pushes the job on the list \<open>queue:<name>\<close> and
  stores it under the key \<open>job:<id>\<close>. It checks nothing and rejects nothing.
\<close>

record SimpleJob =
  sj_id :: string
  sj_queue :: string
  sj_data :: string
  sj_status :: string
  sj_createdAt :: string

record Redis =
  lists :: "string \<Rightarrow> SimpleJob list"
  keys :: "string \<rightharpoonup> SimpleJob"

definition enqueue :: "Redis \<Rightarrow> string \<Rightarrow> string \<Rightarrow> string \<Rightarrow> string \<Rightarrow> string \<Rightarrow> string \<times> Redis" where
  "enqueue r queue data now rnd createdAt =
     (let jid = ''job_'' @ now @ ''_'' @ rnd;
          job = \<lparr>sj_id = jid, sj_queue = queue, sj_data = data, sj_status = ''pending'',
                 sj_createdAt = createdAt\<rparr>
      in (jid, r\<lparr>lists := (lists r)(''queue:'' @ queue := job # lists r (''queue:'' @ queue)),
                keys := (keys r)(''job:'' @ jid \<mapsto> job)\<rparr>))"

section \<open>Retry and dispatch, as the queue library performs them\<close>

text \<open>
  Modelled from the spec: the Job Store's retry policy, here the delay before a retry. The
  source only passes the options \<open>attempts\<close> and \<open>backoff: {type: 'exponential', delay}\<close>;
  the code that counts attempts, delays a retry and marks a job failed belongs to the
  queue library and is not part of the source tree. A failed attempt is counted; while the
  count is below \<open>attempts\<close> the job is queued again after a delay that starts at the base
  delay and doubles with each attempt; at the ceiling the job is marked failed. The reason
  of the last failure is kept in both cases.
\<close>

definition exponentialBackoff :: "nat \<Rightarrow> nat \<Rightarrow> nat" where
  "exponentialBackoff base attemptsMade = base * 2 ^ (attemptsMade - 1)"

text \<open>
  Modelled from the spec: the failure of one attempt, the transition \<open>active \<rightarrow> queued\<close>
  (delayed) below the attempt ceiling and \<open>active \<rightarrow> failed\<close> at the ceiling; this code
  belongs to the queue library.
\<close>

definition moveToFailed :: "string \<Rightarrow> QueueJob \<Rightarrow> QueueJob" where
  "moveToFailed reason j =
     (if job_attemptsMade j + 1 < job_attempts j
      then j\<lparr>job_state := Delayed, job_attemptsMade := job_attemptsMade j + 1,
             job_failedReason := Some reason,
             job_delay := exponentialBackoff (job_backoffDelay j) (job_attemptsMade j + 1)\<rparr>
      else j\<lparr>job_state := Failed, job_attemptsMade := job_attemptsMade j + 1,
             job_failedReason := Some reason\<rparr>)"

text \<open>
  Modelled from the spec: a job that fails attempt after attempt, with the given reasons,
  the retries being run by the queue library; a job that has reached a terminal state is
  not run again.
\<close>

fun failAttempts :: "QueueJob \<Rightarrow> string list \<Rightarrow> QueueJob" where
  "failAttempts j [] = j"
| "failAttempts j (reason # reasons) =
     (if job_state j = Completed \<or> job_state j = Failed then j
      else failAttempts (moveToFailed reason j) reasons)"

text \<open>
  The order of dispatch is decided by the queue library as well. The library serves the
  waiting job with the smallest priority number first and, among jobs of one priority,
  the one added first; \<open>addJob\<close> hands the caller's number to the library unchanged.
\<close>

fun firstServed :: "QueueJob list \<Rightarrow> QueueJob option" where
  "firstServed [] = None"
| "firstServed (j # js) =
     (case firstServed js of
        None \<Rightarrow> Some j
      | Some k \<Rightarrow> (if job_priority j \<le> job_priority k then Some j else Some k))"

definition nextJob :: "Queue \<Rightarrow> QueueJob option" where
  "nextJob q = firstServed (filter (\<lambda>j. job_state j = Waiting) (map snd (jobs q)))"

section \<open>Example inputs\<close>

definition okEnv :: env where
  "okEnv = \<lparr>tempDir = ''/tmp/geoagent'', downloadFile = (\<lambda>u. Inr ''bytes''),
            uploadFile = (\<lambda>p. None),
            mlService = (\<lambda>m ps. Inr \<lparr>ndviImage = None, heatmapImage = None, anomalyMap = None\<rparr>),
            graphragStore = (\<lambda>m j. Inr ''doc-1''), mkdir = (\<lambda>p. None), writeFile = (\<lambda>p. None),
            unlinkFails = (\<lambda>p. False)\<rparr>"

definition sinkDownEnv :: env where
  "sinkDownEnv = okEnv\<lparr>graphragStore := (\<lambda>m j. Inl ''connect ECONNREFUSED'')\<rparr>"

definition mlDownEnv :: env where
  "mlDownEnv = okEnv\<lparr>mlService := (\<lambda>m ps. Inl ''timeout of 60000ms exceeded'')\<rparr>"

definition emptyWorld :: world where
  "emptyWorld = \<lparr>progress = [], files = {}, objects = [], documents = []\<rparr>"

definition sarData :: "string \<Rightarrow> string list option \<Rightarrow> JobData" where
  "sarData oper urls =
     \<lparr>jobId = ''job-1'', userId = ''anonymous'', jobType = ''sar'', operation = oper,
      sourceUrl = ''raw/a.tif'', sourceUrls = urls, options = None\<rparr>"

definition lidarData :: "string \<Rightarrow> JobData" where
  "lidarData jid =
     \<lparr>jobId = jid, userId = ''anonymous'', jobType = ''lidar'', operation = ''process'',
      sourceUrl = ''raw/scan.las'', sourceUrls = None,
      options = Some \<lparr>operations = Some [''dem''], indices = None, outputFormat = None\<rparr>\<rparr>"

definition emptyQueue :: Queue where
  "emptyQueue = \<lparr>jobs = [], redisError = None\<rparr>"

definition emptyRedis :: Redis where
  "emptyRedis = \<lparr>lists = (\<lambda>k. []), keys = Map.empty\<rparr>"

definition doneJob :: QueueJob where
  "doneJob = (newJob ''sar'' (sarData ''coherence'' None) ''job-1'' 7 3 5000)\<lparr>job_state := Completed\<rparr>"

definition doneQueue :: Queue where
  "doneQueue = \<lparr>jobs = [(''job-1'', doneJob)], redisError = None\<rparr>"

section \<open>Notions used in the proofs\<close>

text \<open>
  The progress reports an operation handler of the spectral or thermal processor can add,
  and the reports the \<open>try\<close> block of the LiDAR processing handler can add.
\<close>

definition stageTrace :: "world \<Rightarrow> ('a + 'b) \<times> world \<Rightarrow> bool" where
  "stageTrace w rw \<longleftrightarrow>
     (\<exists>tr. progress (snd rw) = progress w @ tr
        \<and> (tr = [] \<or> tr = [30] \<or> tr = [30, 70] \<or> tr = [30, 70, 100])
        \<and> (\<not> isl (fst rw) \<longrightarrow> tr = [30, 70, 100]))"

definition lidarTraces :: "nat list set" where
  "lidarTraces = {[10], [10, 20], [10, 20, 30], [10, 20, 30, 60], [10, 20, 30, 80],
     [10, 20, 30, 60, 80], [10, 20, 30, 90], [10, 20, 30, 60, 90], [10, 20, 30, 80, 90],
     [10, 20, 30, 60, 80, 90], [10, 20, 30, 90, 100], [10, 20, 30, 60, 90, 100],
     [10, 20, 30, 80, 90, 100], [10, 20, 30, 60, 80, 90, 100]}"

lemmas validate_defs = validateOptions_def integerId_def canonicalNat_def isDigit_def

section \<open>Progress reports of the handlers\<close>

lemma not_isl_iff: "\<not> isl x \<longleftrightarrow> (\<exists>r. x = Inr r)"
  by (cases x) auto

lemma sarDownload_progress:
  "sarDownload e jid us i tps w = (r, w') \<Longrightarrow> progress w' = progress w"
  by (induction us arbitrary: i tps w) (auto simp: fsWrite_def split: sum.splits option.splits)

lemma unlinkAll_progress [simp]: "progress (unlinkAll e ps w) = progress w"
  by (induction ps arbitrary: w) (auto simp: unlinkQuiet_def)

lemma unlinkQuiet_progress [simp]: "progress (unlinkQuiet e p w) = progress w"
  by (simp add: unlinkQuiet_def)

lemma sarCase_progress: "sarCase e jid m ml tps w = (r, w') \<Longrightarrow> progress w' = progress w"
  by (auto simp: sarCase_def putDocument_def split: if_splits sum.splits)

lemma sarSwitch_progress: "sarSwitch e d tps w = (r, w') \<Longrightarrow> progress w' = progress w"
  by (auto simp: sarSwitch_def dest: sarCase_progress split: if_splits)

lemma sar_trace:
  "\<exists>tr. progress (snd (processSARJob e d w)) = progress w @ tr
     \<and> (tr = [10] \<or> tr = [10, 30] \<or> tr = [10, 30, 80, 100])
     \<and> (\<not> isl (fst (processSARJob e d w)) \<longrightarrow> tr = [10, 30, 80, 100])"
  by (auto simp: processSARJob_def updateProgress_def Let_def
      dest!: sarDownload_progress sarSwitch_progress split: option.splits sum.splits prod.splits)

lemma spectralStages_trace:
  "\<exists>tr. progress (snd (spectralStages e d f ml nm opn lbl w)) = progress w @ tr
     \<and> (tr = [30] \<or> tr = [30, 70] \<or> tr = [30, 70, 100])
     \<and> (\<not> isl (fst (spectralStages e d f ml nm opn lbl w)) \<longrightarrow> tr = [30, 70, 100])"
  by (auto simp: spectralStages_def updateProgress_def putObject_def putDocument_def Let_def
      split: option.splits sum.splits)

lemma uploadOptional_progress: "uploadOptional e t w = (r, w') \<Longrightarrow> progress w' = progress w"
  by (auto simp: uploadOptional_def putObject_def split: option.splits)

lemma vegetation_trace:
  "\<exists>tr. progress (snd (handleVegetationAnalysis e d f w)) = progress w @ tr
     \<and> (tr = [30] \<or> tr = [30, 70] \<or> tr = [30, 70, 100])
     \<and> (\<not> isl (fst (handleVegetationAnalysis e d f w)) \<longrightarrow> tr = [30, 70, 100])"
  by (auto simp: handleVegetationAnalysis_def updateProgress_def putObject_def putDocument_def Let_def
      dest!: uploadOptional_progress split: option.splits sum.splits prod.splits)

lemma thermalStages_trace:
  "\<exists>tr. progress (snd (thermalStages e d f ml tg opn w)) = progress w @ tr
     \<and> (tr = [30] \<or> tr = [30, 70] \<or> tr = [30, 70, 100])
     \<and> (\<not> isl (fst (thermalStages e d f ml tg opn w)) \<longrightarrow> tr = [30, 70, 100])"
  by (auto simp: thermalStages_def updateProgress_def putObject_def putDocument_def Let_def
      dest!: uploadOptional_progress split: option.splits sum.splits prod.splits)

lemma stageTrace_spectralStages [simp]: "stageTrace w (spectralStages e d f ml nm opn lbl w)"
  unfolding stageTrace_def using spectralStages_trace [of e d f ml nm opn lbl w] by blast

lemma stageTrace_vegetation [simp]: "stageTrace w (handleVegetationAnalysis e d f w)"
  unfolding stageTrace_def using vegetation_trace [of e d f w] by blast

lemma stageTrace_thermalStages [simp]: "stageTrace w (thermalStages e d f ml tg opn w)"
  unfolding stageTrace_def using thermalStages_trace [of e d f ml tg opn w] by blast

lemma stageTrace_unknown [simp]: "stageTrace w (Inl msg, w)"
  by (simp add: stageTrace_def)

lemma spectralSwitch_trace: "stageTrace w (spectralSwitch e d f w)"
  by (simp add: spectralSwitch_def handleUnmixing_def handleMaterialIdentification_def
    handleMineralMapping_def handleWaterQualityAnalysis_def)

lemma thermalSwitch_trace: "stageTrace w (thermalSwitch e d f w)"
  by (simp add: thermalSwitch_def handleHeatmap_def handleAnomalyDetection_def
    handleTemperatureExtraction_def)

lemma singleFileJob_trace:
  assumes "\<And>p w. stageTrace w (sw p w)"
  shows "\<exists>tr. progress (snd (singleFileJob e d tp sw w)) = progress w @ tr
     \<and> (tr = [10] \<or> tr = [10, 20] \<or> tr = [10, 20, 30] \<or> tr = [10, 20, 30, 70]
          \<or> tr = [10, 20, 30, 70, 100])
     \<and> (\<not> isl (fst (singleFileJob e d tp sw w)) \<longrightarrow> tr = [10, 20, 30, 70, 100])"
proof -
  let ?w = "updateProgress 20 (fsWrite tp (updateProgress 10 w))"
  from assms [of ?w tp] obtain tr where
    tr: "progress (snd (sw tp ?w)) = progress ?w @ tr"
      "tr = [] \<or> tr = [30] \<or> tr = [30, 70] \<or> tr = [30, 70, 100]"
      "\<not> isl (fst (sw tp ?w)) \<longrightarrow> tr = [30, 70, 100]"
    unfolding stageTrace_def by blast
  then show ?thesis
    by (cases "sw tp ?w")
       (auto simp: singleFileJob_def updateProgress_def fsWrite_def Let_def
         split: option.splits sum.splits)
qed

lemma spectral_trace:
  "\<exists>tr. progress (snd (processSpectralJob e d w)) = progress w @ tr
     \<and> (tr = [10] \<or> tr = [10, 20] \<or> tr = [10, 20, 30] \<or> tr = [10, 20, 30, 70]
          \<or> tr = [10, 20, 30, 70, 100])
     \<and> (\<not> isl (fst (processSpectralJob e d w)) \<longrightarrow> tr = [10, 20, 30, 70, 100])"
  unfolding processSpectralJob_def by (rule singleFileJob_trace) (rule spectralSwitch_trace)

lemma thermal_trace:
  "\<exists>tr. progress (snd (processThermalJob e d w)) = progress w @ tr
     \<and> (tr = [10] \<or> tr = [10, 20] \<or> tr = [10, 20, 30] \<or> tr = [10, 20, 30, 70]
          \<or> tr = [10, 20, 30, 70, 100])
     \<and> (\<not> isl (fst (processThermalJob e d w)) \<longrightarrow> tr = [10, 20, 30, 70, 100])"
  unfolding processThermalJob_def by (rule singleFileJob_trace) (rule thermalSwitch_trace)

lemma lidarClassify_trace:
  "lidarClassify e d w = (r, w') \<Longrightarrow> progress w' = progress w \<or> progress w' = progress w @ [60]"
  by (auto simp: lidarClassify_def updateProgress_def split: if_splits sum.splits)

lemma lidarElevation_trace:
  "progress (lidarElevation d w) = progress w \<or> progress (lidarElevation d w) = progress w @ [80]"
  by (auto simp: lidarElevation_def updateProgress_def)

lemma lidarFinish_trace:
  "lidarFinish e d w = (r, w') \<Longrightarrow>
     (isl r \<and> (progress w' = progress w \<or> progress w' = progress w @ [90]))
     \<or> (\<not> isl r \<and> progress w' = progress w @ [90, 100])"
  by (auto simp: lidarFinish_def updateProgress_def putObject_def putDocument_def
      split: option.splits sum.splits)

lemma lidarTry_trace:
  assumes "lidarTry e d w = (r, w')"
  shows "\<exists>tr. progress w' = progress w @ tr \<and> tr \<in> lidarTraces
          \<and> (\<not> isl r \<longrightarrow> last tr = 100)"
proof (cases "downloadFile e (sourceUrl d)")
  case (Inl err)
  with assms show ?thesis
    by (auto simp: lidarTry_def updateProgress_def lidarTraces_def Let_def)
next
  case (Inr buf)
  show ?thesis
  proof (cases "mkdir e (tempDir e) = None \<and> writeFile e (lidarTempPath e d) = None")
    case False
    with Inr assms show ?thesis
      by (auto simp: lidarTry_def updateProgress_def lidarTraces_def Let_def split: option.splits)
  next
    case True
    let ?w3 = "updateProgress 30 (fsWrite (lidarTempPath e d) (updateProgress 20 (updateProgress 10 w)))"
    obtain r1 w1 where c: "lidarClassify e d ?w3 = (r1, w1)" by (cases "lidarClassify e d ?w3")
    have p3: "progress ?w3 = progress w @ [10, 20, 30]"
      by (simp add: updateProgress_def fsWrite_def)
    show ?thesis
    proof (cases r1)
      case (Inl err)
      with True Inr assms c have "r = Inl err" "w' = w1"
        by (auto simp: lidarTry_def Let_def)
      with lidarClassify_trace [OF c] p3 show ?thesis
        by (auto simp: lidarTraces_def)
    next
      case (Inr u)
      with True \<open>downloadFile e (sourceUrl d) = Inr buf\<close> assms c
      have f: "lidarFinish e d (lidarElevation d w1) = (r, w')"
        by (auto simp: lidarTry_def Let_def)
      from lidarFinish_trace [OF f] lidarElevation_trace [of d w1] lidarClassify_trace [OF c] p3
      show ?thesis
        by (auto simp: lidarTraces_def)
    qed
  qed
qed

lemma lidarProcessing_trace:
  assumes "handleLiDARProcessing e d w = (r, w')"
  shows "\<exists>tr. progress w' = progress w @ tr \<and> tr \<in> lidarTraces \<and> (\<not> isl r \<longrightarrow> last tr = 100)"
proof -
  obtain r0 w0 where t: "lidarTry e d w = (r0, w0)" by (cases "lidarTry e d w")
  with assms have "r = r0" "progress w' = progress w0"
    by (auto simp: handleLiDARProcessing_def split: sum.splits)
  with lidarTry_trace [OF t] show ?thesis by simp
qed

lemma lidar_trace:
  "\<exists>tr. progress (snd (processLiDARJob e d w)) = progress w @ tr
     \<and> (tr = [10] \<or> tr = [10, 50, 100] \<or> (\<exists>t \<in> lidarTraces. tr = 10 # t))
     \<and> (\<not> isl (fst (processLiDARJob e d w)) \<longrightarrow> last tr = 100)"
proof -
  let ?w1 = "updateProgress 10 w"
  obtain r w' where h: "handleLiDARProcessing e d ?w1 = (r, w')"
    by (cases "handleLiDARProcessing e d ?w1")
  from lidarProcessing_trace [OF h] obtain t where
    t: "progress w' = progress w @ 10 # t" "t \<in> lidarTraces" "\<not> isl r \<longrightarrow> last t = 100"
    by (auto simp: updateProgress_def)
  then have "t \<noteq> []" by (auto simp: lidarTraces_def)
  with t h show ?thesis
    by (auto simp: processLiDARJob_def handleLiDARIngestion_def updateProgress_def Let_def)
qed

lemma lidarTraces_good:
  "t \<in> lidarTraces \<Longrightarrow> sorted (10 # t) \<and> (\<forall>p \<in> set t. p \<le> 100) \<and> 0 \<notin> set t"
  by (auto simp: lidarTraces_def)

section \<open>A failing knowledge sink\<close>

text \<open>
  The GraphRAG store call is the last external call of every handler that makes it, and no
  handler catches its error. The lemmas compare a run with the run in an environment that
  differs only in the answers of the store call.
\<close>

lemma sarTempPath_sink [simp]: "sarTempPath (e\<lparr>graphragStore := g\<rparr>) jid i = sarTempPath e jid i"
  by (simp add: sarTempPath_def)

lemma sarDownload_sink [simp]:
  "sarDownload (e\<lparr>graphragStore := g\<rparr>) jid us i tps w = sarDownload e jid us i tps w"
  by (induction us arbitrary: i tps w) (auto split: sum.splits option.splits)

lemma sarCase_sink:
  assumes "graphragStore e ''storeSARAnalysis'' jid = Inl err"
  shows "isl (fst (sarCase e jid m ml tps w))"
    and "\<not> isl (fst (sarCase (e\<lparr>graphragStore := g\<rparr>) jid m ml tps w))
         \<Longrightarrow> fst (sarCase e jid m ml tps w) = Inl err"
  using assms by (auto simp: sarCase_def split: sum.splits if_splits)

lemma sarSwitch_sink:
  assumes "graphragStore e ''storeSARAnalysis'' (jobId d) = Inl err"
  shows "isl (fst (sarSwitch e d tps w))"
    and "\<not> isl (fst (sarSwitch (e\<lparr>graphragStore := g\<rparr>) d tps w))
         \<Longrightarrow> fst (sarSwitch e d tps w) = Inl err"
  using sarCase_sink [OF assms] by (auto simp: sarSwitch_def split: if_splits)

lemma processSARJob_fst:
  "fst (processSARJob e d w) =
     (case mkdir e (tempDir e) of
        Some err \<Rightarrow> Inl err
      | None \<Rightarrow>
          (case sarDownload e (jobId d) (case sourceUrls d of None \<Rightarrow> [] | Some us \<Rightarrow> us) 0 []
                  (updateProgress 10 w) of
             (Inl err, w2) \<Rightarrow> Inl err
           | (Inr tempPaths, w2) \<Rightarrow>
               (case fst (sarSwitch e d tempPaths (updateProgress 30 w2)) of
                  Inl err \<Rightarrow> Inl err
                | Inr u \<Rightarrow> Inr \<lparr>res_jobId = jobId d, res_operation = operation d,
                          res_operations = [operation d], res_outputPaths = []\<rparr>)))"
  by (auto simp: processSARJob_def Let_def split: option.splits prod.splits sum.splits)

lemma sar_sink:
  assumes "graphragStore e ''storeSARAnalysis'' (jobId d) = Inl err"
  shows "isl (fst (processSARJob e d w))"
    and "\<not> isl (fst (processSARJob (e\<lparr>graphragStore := g\<rparr>) d w))
         \<Longrightarrow> fst (processSARJob e d w) = Inl err"
proof -
  have a: "fst (sarSwitch e d tps w') \<noteq> Inr u" for tps w' u
    using sarSwitch_sink(1) [OF assms, of tps w'] by auto
  have b: "fst (sarSwitch (e\<lparr>graphragStore := g\<rparr>) d tps w') = Inr u
           \<Longrightarrow> fst (sarSwitch e d tps w') = Inl err" for tps w' u
    using sarSwitch_sink(2) [OF assms, of g tps w'] by auto
  show "isl (fst (processSARJob e d w))"
    using a by (auto simp: processSARJob_fst split: option.splits prod.splits sum.splits)
  show "fst (processSARJob e d w) = Inl err"
    if "\<not> isl (fst (processSARJob (e\<lparr>graphragStore := g\<rparr>) d w))"
    using that b by (auto simp: processSARJob_fst split: option.splits prod.splits sum.splits)
qed

lemma spectralStages_sink:
  assumes "graphragStore e ''storeSpectralAnalysis'' (jobId d) = Inl err"
  shows "fst (spectralStages e d f ml nm opn lbl w) \<noteq> Inr r"
    and "fst (spectralStages (e\<lparr>graphragStore := g\<rparr>) d f ml nm opn lbl w) = Inr r
         \<Longrightarrow> fst (spectralStages e d f ml nm opn lbl w) = Inl err"
  using assms by (auto simp: spectralStages_def Let_def split: sum.splits option.splits)

lemma uploadOptional_sink [simp]:
  "uploadOptional (e\<lparr>graphragStore := g\<rparr>) t w = uploadOptional e t w"
  by (simp add: uploadOptional_def split: option.splits)

lemma vegetation_sink:
  assumes "graphragStore e ''storeSpectralAnalysis'' (jobId d) = Inl err"
  shows "fst (handleVegetationAnalysis e d f w) \<noteq> Inr r"
    and "fst (handleVegetationAnalysis (e\<lparr>graphragStore := g\<rparr>) d f w) = Inr r
         \<Longrightarrow> fst (handleVegetationAnalysis e d f w) = Inl err"
  using assms
  by (auto simp: handleVegetationAnalysis_def Let_def split: sum.splits option.splits prod.splits)

lemma thermalStages_sink:
  assumes "graphragStore e ''storeThermalAnalysis'' (jobId d) = Inl err"
  shows "fst (thermalStages e d f ml tg opn w) \<noteq> Inr r"
    and "fst (thermalStages (e\<lparr>graphragStore := g\<rparr>) d f ml tg opn w) = Inr r
         \<Longrightarrow> fst (thermalStages e d f ml tg opn w) = Inl err"
  using assms
  by (auto simp: thermalStages_def Let_def split: sum.splits option.splits prod.splits)

lemma spectralSwitch_sink:
  assumes "graphragStore e ''storeSpectralAnalysis'' (jobId d) = Inl err"
  shows "fst (spectralSwitch e d f w) \<noteq> Inr r"
    and "fst (spectralSwitch (e\<lparr>graphragStore := g\<rparr>) d f w) = Inr r
         \<Longrightarrow> fst (spectralSwitch e d f w) = Inl err"
  using spectralStages_sink [OF assms] vegetation_sink [OF assms]
  by (auto simp: spectralSwitch_def handleUnmixing_def handleMaterialIdentification_def
      handleMineralMapping_def handleWaterQualityAnalysis_def split: if_splits)

lemma thermalSwitch_sink:
  assumes "graphragStore e ''storeThermalAnalysis'' (jobId d) = Inl err"
  shows "fst (thermalSwitch e d f w) \<noteq> Inr r"
    and "fst (thermalSwitch (e\<lparr>graphragStore := g\<rparr>) d f w) = Inr r
         \<Longrightarrow> fst (thermalSwitch e d f w) = Inl err"
  using thermalStages_sink [OF assms]
  by (auto simp: thermalSwitch_def handleHeatmap_def handleAnomalyDetection_def
      handleTemperatureExtraction_def split: if_splits)

lemma singleFileJob_fst:
  "fst (singleFileJob e d tp sw w) =
     (case downloadFile e (sourceUrl d) of
        Inl err \<Rightarrow> Inl err
      | Inr fileBuffer \<Rightarrow>
          (case mkdir e (tempDir e) of
             Some err \<Rightarrow> Inl err
           | None \<Rightarrow>
               (case writeFile e tp of
                  Some err \<Rightarrow> Inl err
                | None \<Rightarrow> fst (sw tp (updateProgress 20 (fsWrite tp (updateProgress 10 w)))))))"
  by (auto simp: singleFileJob_def Let_def split: option.splits prod.splits sum.splits)

lemma singleFileJob_sink:
  assumes "\<And>p w' r. fst (sw p w') \<noteq> Inr r"
    and "\<And>p w' r. fst (sw' p w') = Inr r \<Longrightarrow> fst (sw p w') = Inl err"
  shows "isl (fst (singleFileJob e d tp sw w))"
    and "\<not> isl (fst (singleFileJob (e\<lparr>graphragStore := g\<rparr>) d tp sw' w))
         \<Longrightarrow> fst (singleFileJob e d tp sw w) = Inl err"
proof -
  let ?w = "updateProgress 20 (fsWrite tp (updateProgress 10 w))"
  from assms(1) [of tp ?w] have a: "isl (fst (sw tp ?w))"
    by (cases "fst (sw tp ?w)") auto
  then show "isl (fst (singleFileJob e d tp sw w))"
    by (auto simp: singleFileJob_fst split: option.splits sum.splits)
  show "fst (singleFileJob e d tp sw w) = Inl err"
    if "\<not> isl (fst (singleFileJob (e\<lparr>graphragStore := g\<rparr>) d tp sw' w))"
    using that assms(2) [of tp ?w]
    by (auto simp: singleFileJob_fst not_isl_iff split: option.splits sum.splits)
qed

lemma spectral_sink:
  assumes "graphragStore e ''storeSpectralAnalysis'' (jobId d) = Inl err"
  shows "isl (fst (processSpectralJob e d w))"
    and "\<not> isl (fst (processSpectralJob (e\<lparr>graphragStore := g\<rparr>) d w))
         \<Longrightarrow> fst (processSpectralJob e d w) = Inl err"
proof -
  have a: "fst (spectralSwitch e d p w') \<noteq> Inr r" for p w' r
    using spectralSwitch_sink(1) [OF assms] .
  have b: "fst (spectralSwitch (e\<lparr>graphragStore := g\<rparr>) d p w') = Inr r
           \<Longrightarrow> fst (spectralSwitch e d p w') = Inl err" for p w' r
    using spectralSwitch_sink(2) [OF assms] .
  have t: "spectralTempPath (e\<lparr>graphragStore := g\<rparr>) d = spectralTempPath e d"
    by (simp add: spectralTempPath_def)
  show "isl (fst (processSpectralJob e d w))"
    unfolding processSpectralJob_def
    by (rule singleFileJob_sink(1) [where sw = "spectralSwitch e d"
          and sw' = "spectralSwitch (e\<lparr>graphragStore := g\<rparr>) d", OF a b])
  show "fst (processSpectralJob e d w) = Inl err"
    if "\<not> isl (fst (processSpectralJob (e\<lparr>graphragStore := g\<rparr>) d w))"
    using that singleFileJob_sink(2) [where sw = "spectralSwitch e d"
          and sw' = "spectralSwitch (e\<lparr>graphragStore := g\<rparr>) d" and err = err and e = e and g = g
          and d = d and tp = "spectralTempPath e d" and w = w, OF a b]
    by (simp add: processSpectralJob_def t)
qed

lemma thermal_sink:
  assumes "graphragStore e ''storeThermalAnalysis'' (jobId d) = Inl err"
  shows "isl (fst (processThermalJob e d w))"
    and "\<not> isl (fst (processThermalJob (e\<lparr>graphragStore := g\<rparr>) d w))
         \<Longrightarrow> fst (processThermalJob e d w) = Inl err"
proof -
  have a: "fst (thermalSwitch e d p w') \<noteq> Inr r" for p w' r
    using thermalSwitch_sink(1) [OF assms] .
  have b: "fst (thermalSwitch (e\<lparr>graphragStore := g\<rparr>) d p w') = Inr r
           \<Longrightarrow> fst (thermalSwitch e d p w') = Inl err" for p w' r
    using thermalSwitch_sink(2) [OF assms] .
  have t: "thermalTempPath (e\<lparr>graphragStore := g\<rparr>) d = thermalTempPath e d"
    by (simp add: thermalTempPath_def)
  show "isl (fst (processThermalJob e d w))"
    unfolding processThermalJob_def
    by (rule singleFileJob_sink(1) [where sw = "thermalSwitch e d"
          and sw' = "thermalSwitch (e\<lparr>graphragStore := g\<rparr>) d", OF a b])
  show "fst (processThermalJob e d w) = Inl err"
    if "\<not> isl (fst (processThermalJob (e\<lparr>graphragStore := g\<rparr>) d w))"
    using that singleFileJob_sink(2) [where sw = "thermalSwitch e d"
          and sw' = "thermalSwitch (e\<lparr>graphragStore := g\<rparr>) d" and err = err and e = e and g = g
          and d = d and tp = "thermalTempPath e d" and w = w, OF a b]
    by (simp add: processThermalJob_def t)
qed

lemma lidarClassify_sink [simp]:
  "lidarClassify (e\<lparr>graphragStore := g\<rparr>) d w = lidarClassify e d w"
  by (simp add: lidarClassify_def lidarTempPath_def)

lemma lidarFinish_sink:
  assumes "graphragStore e ''storeLiDARAnalysis'' (jobId d) = Inl err"
  shows "fst (lidarFinish e d w) \<noteq> Inr r"
    and "fst (lidarFinish (e\<lparr>graphragStore := g\<rparr>) d w) = Inr r
         \<Longrightarrow> fst (lidarFinish e d w) = Inl err"
  using assms by (auto simp: lidarFinish_def split: sum.splits option.splits)

lemma lidarTry_fst:
  "fst (lidarTry e d w) =
     (case downloadFile e (sourceUrl d) of
        Inl err \<Rightarrow> Inl err
      | Inr fileBuffer \<Rightarrow>
          (case mkdir e (tempDir e) of
             Some err \<Rightarrow> Inl err
           | None \<Rightarrow>
               (case writeFile e (lidarTempPath e d) of
                  Some err \<Rightarrow> Inl err
                | None \<Rightarrow>
                    (case lidarClassify e d (updateProgress 30 (fsWrite (lidarTempPath e d)
                            (updateProgress 20 (updateProgress 10 w)))) of
                       (Inl err, w3) \<Rightarrow> Inl err
                     | (Inr u, w3) \<Rightarrow> fst (lidarFinish e d (lidarElevation d w3))))))"
  by (auto simp: lidarTry_def Let_def split: option.splits prod.splits sum.splits)

lemma handleLiDARProcessing_fst: "fst (handleLiDARProcessing e d w) = fst (lidarTry e d w)"
  by (auto simp: handleLiDARProcessing_def split: prod.splits sum.splits)

lemma lidar_sink:
  assumes "graphragStore e ''storeLiDARAnalysis'' (jobId d) = Inl err"
  shows "isl (fst (handleLiDARProcessing e d w))"
    and "\<not> isl (fst (handleLiDARProcessing (e\<lparr>graphragStore := g\<rparr>) d w))
         \<Longrightarrow> fst (handleLiDARProcessing e d w) = Inl err"
proof -
  have a: "isl (fst (lidarFinish e d w'))" for w'
    using lidarFinish_sink(1) [OF assms, of w'] by (cases "fst (lidarFinish e d w')") auto
  show "isl (fst (handleLiDARProcessing e d w))"
    using a by (auto simp: handleLiDARProcessing_fst lidarTry_fst split: option.splits prod.splits sum.splits)
  show "fst (handleLiDARProcessing e d w) = Inl err"
    if "\<not> isl (fst (handleLiDARProcessing (e\<lparr>graphragStore := g\<rparr>) d w))"
    using that lidarFinish_sink(2) [OF assms, of g]
    by (auto simp: handleLiDARProcessing_fst lidarTry_fst lidarTempPath_def not_isl_iff
        split: option.splits prod.splits sum.splits)
qed


section \<open>Facts about single stages\<close>

lemma sarSwitch_too_few:
  "operation d = ''interferometry'' \<Longrightarrow> length tps < 2 \<Longrightarrow>
   sarSwitch e d tps w = (Inl ''Interferometry requires at least 2 SAR images'', w)"
  by (simp add: sarSwitch_def sarCase_def)

lemma sarSwitch_unknown:
  "operation d \<noteq> ''interferometry'' \<Longrightarrow> operation d \<noteq> ''coherence'' \<Longrightarrow>
   operation d \<noteq> ''change_detection'' \<Longrightarrow>
   sarSwitch e d tps w = (Inl (''Unknown SAR operation: '' @ operation d), w)"
  by (simp add: sarSwitch_def)

text \<open>
  The LiDAR processing handler, unlike the SAR, spectral and thermal processors, removes
  its temp file on the failure paths too.
\<close>

lemma lidar_cleanup:
  "\<not> unlinkFails e (lidarTempPath e d) \<Longrightarrow>
   lidarTempPath e d \<notin> files (snd (handleLiDARProcessing e d w))"
  by (auto simp: handleLiDARProcessing_def lidarTry_def lidarFinish_def unlinkQuiet_def Let_def
      split: prod.splits sum.splits option.splits)

section \<open>Facts about the queue\<close>

lemma map_of_filter_neq: "map_of (filter (\<lambda>(k, j). k \<noteq> jid) xs) jid = None"
  by (induction xs) auto

lemma map_of_filter_other: "k \<noteq> jid \<Longrightarrow> map_of (filter (\<lambda>(k, j). k \<noteq> jid) xs) k = map_of xs k"
  by (induction xs) auto

lemma map_of_snoc_fresh: "map_of xs k = None \<Longrightarrow> map_of (xs @ [(k, v)]) k = Some v"
  by (induction xs) auto

lemma serve_keeps_absent:
  assumes "map_of (jobs q) jid = None" and "\<not> addsJob jid r"
  shows "map_of (jobs (serve q r)) jid = None"
proof (cases r)
  case (GetJob x)
  with assms show ?thesis by simp
next
  case (DeleteJob x)
  show ?thesis
  proof (cases "x = jid")
    case True
    with DeleteJob assms show ?thesis
      by (auto simp: deleteJobRoute_def cancelJob_def queueGetJob_def jobRemove_def map_of_filter_neq
          split: option.splits)
  next
    case False
    with DeleteJob assms show ?thesis
      by (auto simp: deleteJobRoute_def cancelJob_def queueGetJob_def jobRemove_def map_of_filter_other
          split: option.splits)
  qed
next
  case (AddJob d p)
  with assms show ?thesis
    by (auto simp: addJob_def queueAdd_def split: option.splits)
qed

lemma serve_redisError: "redisError (serve q r) = redisError q"
  by (cases r)
     (auto simp: deleteJobRoute_def cancelJob_def queueGetJob_def jobRemove_def addJob_def queueAdd_def
       split: option.splits)

lemma serveAll_keeps_absent:
  "map_of (jobs q) jid = None \<Longrightarrow> \<forall>r \<in> set rs. \<not> addsJob jid r \<Longrightarrow>
   map_of (jobs (serveAll q rs)) jid = None \<and> redisError (serveAll q rs) = redisError q"
  by (induction rs arbitrary: q) (auto simp: serve_keeps_absent serve_redisError)

lemma cancel_removes:
  assumes "fst (deleteJobRoute q jid) = Cancelled jid'"
  shows "map_of (jobs (snd (deleteJobRoute q jid))) jid = None
       \<and> redisError (snd (deleteJobRoute q jid)) = None"
  using assms
  by (auto simp: deleteJobRoute_def cancelJob_def queueGetJob_def jobRemove_def map_of_filter_neq
      split: option.splits if_splits)

text \<open>What the validation of the library refuses, as \<open>addJob\<close> reports it.\<close>

lemma addJob_refuses_integer_id:
  "fst (addJob emptyQueue ((sarData ''coherence'' None)\<lparr>jobId := ''42''\<rparr>) (Some 7))
     = Inl ''Failed to add job to queue: Custom Id cannot be integers''"
  by (simp add: addJob_def queueAdd_def validate_defs emptyQueue_def sarData_def)

lemma addJob_refuses_priority:
  "fst (addJob emptyQueue (sarData ''coherence'' None) (Some 2097152))
     = Inl ''Failed to add job to queue: Priority should be between 0 and 2097151''"
  by (simp add: addJob_def queueAdd_def validate_defs emptyQueue_def sarData_def)

lemma addJob_refused_stores_nothing:
  "fst (addJob q d p) = Inl msg \<Longrightarrow> snd (addJob q d p) = q"
  by (auto simp: addJob_def queueAdd_def split: option.splits)

lemma failAttempts_terminal [simp]: "job_state j = Failed \<Longrightarrow> failAttempts j rs = j"
  by (cases rs) auto

lemma addJob_job:
  "fst (addJob q d p) = Inr j \<Longrightarrow>
   j = newJob (jobType d) d (jobId d) (case p of None \<Rightarrow> 5 | Some n \<Rightarrow> n) 3 5000"
  by (auto simp: addJob_def queueAdd_def split: option.splits)

lemma short_list: "rs \<noteq> [] \<Longrightarrow> length rs < 3 \<Longrightarrow> (\<exists>a. rs = [a]) \<or> (\<exists>a b. rs = [a, b])"
  by (cases rs; cases "tl rs"; cases "tl (tl rs)") auto

lemma long_list: "3 \<le> length rs \<Longrightarrow> \<exists>a b c rest. rs = a # b # c # rest"
  by (cases rs; cases "tl rs"; cases "tl (tl rs)") auto

lemma fail_new_short:
  "rs \<noteq> [] \<Longrightarrow> length rs < 3 \<Longrightarrow>
   job_state (failAttempts (newJob n d i pr 3 5000) rs) = Delayed \<and>
   job_delay (failAttempts (newJob n d i pr 3 5000) rs) = 5000 * 2 ^ (length rs - 1) \<and>
   job_delay (failAttempts (newJob n d i pr 3 5000) rs) \<le> 10000 \<and>
   job_failedReason (failAttempts (newJob n d i pr 3 5000) rs) = Some (last rs)"
  using short_list [of rs]
  by (auto simp: newJob_def moveToFailed_def exponentialBackoff_def)

lemma fail_new_long:
  "3 \<le> length rs \<Longrightarrow>
   job_state (failAttempts (newJob n d i pr 3 5000) rs) = Failed \<and>
   job_failedReason (failAttempts (newJob n d i pr 3 5000) rs) = Some (rs ! 2) \<and>
   job_attemptsMade (failAttempts (newJob n d i pr 3 5000) rs) = 3"
  using long_list [of rs]
  by (auto simp: newJob_def moveToFailed_def exponentialBackoff_def)

section \<open>SAR jobs with an operation the processor does not know\<close>

lemma unknown_sar_never_completes:
  assumes "jobType d = ''sar''" and "operation d \<noteq> ''interferometry''"
    and "operation d \<noteq> ''coherence''" and "operation d \<noteq> ''change_detection''"
  shows "\<exists>msg. fst (processJob e d w) = Inl msg"
  using assms
  by (auto simp: processJob_def analysed_def processSARJob_def sarSwitch_unknown Let_def
      split: option.splits sum.splits prod.splits)

lemma unknown_sar_message:
  assumes "jobType d = ''sar''" and "operation d \<noteq> ''interferometry''"
    and "operation d \<noteq> ''coherence''" and "operation d \<noteq> ''change_detection''"
    and "sourceUrls d = None" and "mkdir e (tempDir e) = None"
  shows "fst (processJob e d w) = Inl (''Unknown SAR operation: '' @ operation d)"
  using assms
  by (simp add: processJob_def analysed_def processSARJob_def sarSwitch_unknown Let_def)

lemma addJob_fresh:
  assumes "map_of (jobs q) (jobId d) = None" and "fst (addJob q d p) = Inr j"
  shows "map_of (jobs (snd (addJob q d p))) (jobId d)
           = Some (newJob (jobType d) d (jobId d) (case p of None \<Rightarrow> 5 | Some n \<Rightarrow> n) 3 5000)"
proof -
  from assms(2) have "redisError q = None"
    and "validateOptions (jobId d) (case p of None \<Rightarrow> 5 | Some n \<Rightarrow> n) = None"
    by (auto simp: addJob_def queueAdd_def split: option.splits)
  with assms(1) have "jobs (snd (addJob q d p))
      = jobs q @ [(jobId d, newJob (jobType d) d (jobId d) (case p of None \<Rightarrow> 5 | Some n \<Rightarrow> n) 3 5000)]"
    by (simp add: addJob_def queueAdd_def)
  with assms(1) show ?thesis
    by (simp only: map_of_snoc_fresh)
qed

lemma postSarIngest_accepted:
  assumes "fst (postSarIngest q upload file me jid uid) = Accepted jid'"
  shows "\<exists>minioPath j. fst (addJob q (sarIngestData jid uid minioPath) (Some 5)) = Inr j
           \<and> snd (postSarIngest q upload file me jid uid)
               = snd (addJob q (sarIngestData jid uid minioPath) (Some 5))"
  using assms
  by (auto simp: postSarIngest_def split: option.splits sum.splits prod.splits)
     (metis fst_conv snd_conv)

lemma postSarChange_accepted:
  assumes "fst (postSarChange q before after jid uid) = Accepted jid'"
  shows "\<exists>b a j. fst (addJob q (sarChangeData jid uid b a) (Some 7)) = Inr j
           \<and> snd (postSarChange q before after jid uid)
               = snd (addJob q (sarChangeData jid uid b a) (Some 7))"
  using assms
  by (auto simp: postSarChange_def split: option.splits sum.splits prod.splits)
     (metis fst_conv snd_conv)

section \<open>The claims\<close>

text \<open>
  C1 (corrected). The claim: when fetch and compute succeed, a failure of the Knowledge Sink
  submission does not fail the job. In the code no processor catches the error of the
  GraphRAG store call. As amended: for every SAR, spectral, thermal and LiDAR \<open>process\<close>
  job, a failing store call fails the handler, which throws instead of returning a
  result; and a job that would have succeeded with a working sink throws exactly the
  error of the store call.
\<close>

theorem sink_failure_fails_handler:
  assumes "\<forall>m. graphragStore e m (jobId d) = Inl err"
    and "jobType d = ''sar'' \<or> jobType d = ''spectral'' \<or> jobType d = ''thermal''
         \<or> (jobType d = ''lidar'' \<and> operation d = ''process'')"
  shows "(\<exists>msg. fst (processJob e d w) = Inl msg)
       \<and> ((\<exists>r. fst (processJob (e\<lparr>graphragStore := g\<rparr>) d w) = Inr r)
            \<longrightarrow> fst (processJob e d w) = Inl err)"
proof -
  have s: "graphragStore e m (jobId d) = Inl err" for m
    using assms(1) by simp
  have l: "fst (analysed rw) = Inl msg \<longleftrightarrow> fst rw = Inl msg"
    for rw :: "(string + ProcessingResult) \<times> world" and msg
    by (auto simp: analysed_def split: prod.splits sum.splits)
  have r: "(\<exists>r. fst (analysed rw) = Inr r) \<longleftrightarrow> \<not> isl (fst rw)"
    for rw :: "(string + ProcessingResult) \<times> world"
    by (auto simp: analysed_def not_isl_iff split: prod.splits sum.splits)
  have i: "(\<exists>msg. x = Inl msg) \<longleftrightarrow> isl x" for x :: "string + ProcessingResult"
    by (cases x) auto
  from assms(2) show ?thesis
  proof (elim disjE conjE)
    assume "jobType d = ''sar''"
    with sar_sink(1) [OF s, where w = w] sar_sink(2) [OF s, where w = w and g = g] show ?thesis
      by (simp add: processJob_def l r i)
  next
    assume "jobType d = ''spectral''"
    with spectral_sink(1) [OF s, where w = w] spectral_sink(2) [OF s, where w = w and g = g]
    show ?thesis
      by (simp add: processJob_def l r i)
  next
    assume "jobType d = ''thermal''"
    with thermal_sink(1) [OF s, where w = w] thermal_sink(2) [OF s, where w = w and g = g]
    show ?thesis
      by (simp add: processJob_def l r i)
  next
    assume "jobType d = ''lidar''" "operation d = ''process''"
    with lidar_sink(1) [OF s, where w = "updateProgress 10 w"]
      lidar_sink(2) [OF s, where w = "updateProgress 10 w" and g = g] show ?thesis
      by (simp add: processJob_def processLiDARJob_def l r i)
  qed
qed

theorem sink_failure_fails_handler_witness:
  "(\<forall>m. graphragStore sinkDownEnv m (jobId (lidarData ''job-2'')) = Inl ''connect ECONNREFUSED'')
   \<and> jobType (lidarData ''job-2'') = ''lidar'' \<and> operation (lidarData ''job-2'') = ''process''
   \<and> (\<exists>r. fst (processJob (sinkDownEnv\<lparr>graphragStore := graphragStore okEnv\<rparr>)
               (lidarData ''job-2'') emptyWorld) = Inr r)
   \<and> fst (processJob sinkDownEnv (lidarData ''job-2'') emptyWorld) = Inl ''connect ECONNREFUSED''"
proof -
  have a: "\<forall>m. graphragStore sinkDownEnv m (jobId (lidarData ''job-2'')) = Inl ''connect ECONNREFUSED''"
    by (simp add: sinkDownEnv_def okEnv_def)
  have b: "jobType (lidarData ''job-2'') = ''lidar''" "operation (lidarData ''job-2'') = ''process''"
    by (simp_all add: lidarData_def)
  have c: "\<exists>r. fst (processJob (sinkDownEnv\<lparr>graphragStore := graphragStore okEnv\<rparr>)
               (lidarData ''job-2'') emptyWorld) = Inr r"
    by (simp add: processJob_def analysed_def processLiDARJob_def handleLiDARProcessing_def
        lidarTry_def lidarClassify_def lidarFinish_def lidarOperations_def lidarData_def
        sinkDownEnv_def okEnv_def)
  from sink_failure_fails_handler [OF a, of emptyWorld "graphragStore okEnv"] a b c
  show ?thesis by simp
qed

theorem sink_failure_counterexample:
  "downloadFile sinkDownEnv ''raw/a.tif'' = Inr ''bytes''
   \<and> downloadFile sinkDownEnv ''raw/b.tif'' = Inr ''bytes''
   \<and> mlService sinkDownEnv ''processInterferometry''
         [''/tmp/geoagent/job-1_sar_0.tif'', ''/tmp/geoagent/job-1_sar_1.tif'']
       = Inr \<lparr>ndviImage = None, heatmapImage = None, anomalyMap = None\<rparr>
   \<and> fst (processJob sinkDownEnv (sarData ''interferometry'' (Some [''raw/a.tif'', ''raw/b.tif'']))
        emptyWorld) = Inl ''connect ECONNREFUSED''
   \<and> fst (processJob sinkDownEnv (lidarData ''job-2'') emptyWorld) = Inl ''connect ECONNREFUSED''"
  by (simp add: processJob_def analysed_def processSARJob_def sarSwitch_def sarCase_def
      processLiDARJob_def handleLiDARProcessing_def lidarTry_def lidarClassify_def lidarFinish_def
      lidarOperations_def lidarData_def sarData_def sinkDownEnv_def okEnv_def)

text \<open>
  C2 (corrected). The claim: the second of two enqueue calls with the same job id is
  rejected with \<open>DUPLICATE_JOB\<close> and the first job is left untouched. No code rejects a
  duplicate. As amended: when an \<open>addJob\<close> call with a non-empty job id has been accepted, a
  second \<open>addJob\<close> call with the same id is not rejected as a duplicate: it gets the answer
  it would have got on the queue as it was before the first call, which is a job handle
  for that id whenever the library accepts the id and the priority, and it leaves the
  queue, and so the first job, as the first call left them. \<open>QueueService.enqueue\<close>, which
  builds the id itself, answers the same id again and overwrites the record stored under it.
\<close>

theorem duplicate_enqueue_not_rejected:
  assumes "fst (addJob q d p) = Inr j" and "jobId d' = jobId d" and "jobId d \<noteq> []"
  shows "snd (addJob (snd (addJob q d p)) d' p') = snd (addJob q d p)
       \<and> map_of (jobs (snd (addJob (snd (addJob q d p)) d' p'))) (jobId d)
           = map_of (jobs (snd (addJob q d p))) (jobId d)
       \<and> fst (addJob (snd (addJob q d p)) d' p') = fst (addJob q d' p')
       \<and> (validateOptions (jobId d') (case p' of None \<Rightarrow> 5 | Some n \<Rightarrow> n) = None \<longrightarrow>
            (\<exists>job. fst (addJob (snd (addJob q d p)) d' p') = Inr job \<and> job_id job = jobId d))
       \<and> fst (enqueue (snd (enqueue r qn x now rnd t)) qn x' now rnd t')
           = fst (enqueue r qn x now rnd t)
       \<and> map_option sj_data (keys (snd (enqueue (snd (enqueue r qn x now rnd t)) qn x' now rnd t'))
           (''job:'' @ fst (enqueue r qn x now rnd t))) = Some x'"
proof -
  from assms(1) have ok: "redisError q = None"
    and v: "validateOptions (jobId d) (case p of None \<Rightarrow> 5 | Some n \<Rightarrow> n) = None"
    by (auto simp: addJob_def queueAdd_def split: option.splits)
  have ok1: "redisError (snd (addJob q d p)) = None"
    using ok v by (auto simp: addJob_def queueAdd_def split: option.splits)
  have present: "map_of (jobs (snd (addJob q d p))) (jobId d) \<noteq> None"
  proof (cases "map_of (jobs q) (jobId d)")
    case None
    from addJob_fresh [OF None assms(1)] show ?thesis by simp
  next
    case (Some k)
    with ok v show ?thesis by (simp add: addJob_def queueAdd_def)
  qed
  have same: "snd (addJob (snd (addJob q d p)) d' p') = snd (addJob q d p)"
    using present ok1 assms(2) by (auto simp: addJob_def queueAdd_def split: option.splits)
  have answer: "fst (addJob (snd (addJob q d p)) d' p') = fst (addJob q d' p')"
    using ok ok1 by (auto simp: addJob_def queueAdd_def split: option.splits)
  have handle: "validateOptions (jobId d') (case p' of None \<Rightarrow> 5 | Some n \<Rightarrow> n) = None \<longrightarrow>
            (\<exists>job. fst (addJob (snd (addJob q d p)) d' p') = Inr job \<and> job_id job = jobId d)"
    using ok1 assms(2) by (auto simp: addJob_def queueAdd_def newJob_def split: option.splits)
  have "fst (enqueue (snd (enqueue r qn x now rnd t)) qn x' now rnd t')
           = fst (enqueue r qn x now rnd t)
       \<and> map_option sj_data (keys (snd (enqueue (snd (enqueue r qn x now rnd t)) qn x' now rnd t'))
           (''job:'' @ fst (enqueue r qn x now rnd t))) = Some x'"
    by (simp add: enqueue_def Let_def)
  with same answer handle show ?thesis by simp
qed

theorem duplicate_enqueue_not_rejected_witness:
  "fst (addJob emptyQueue (sarData ''coherence'' None) (Some 7))
     = Inr (newJob ''sar'' (sarData ''coherence'' None) ''job-1'' 7 3 5000)
   \<and> jobId (sarData ''change_detection'' None) = jobId (sarData ''coherence'' None)
   \<and> jobId (sarData ''coherence'' None) = ''job-1''
   \<and> validateOptions (jobId (sarData ''change_detection'' None)) 7 = None
   \<and> (\<exists>job. fst (addJob (snd (addJob emptyQueue (sarData ''coherence'' None) (Some 7)))
                 (sarData ''change_detection'' None) (Some 7)) = Inr job \<and> job_id job = ''job-1'')
   \<and> snd (addJob (snd (addJob emptyQueue (sarData ''coherence'' None) (Some 7)))
                 (sarData ''change_detection'' None) (Some 7))
       = snd (addJob emptyQueue (sarData ''coherence'' None) (Some 7))"
proof -
  have a: "fst (addJob emptyQueue (sarData ''coherence'' None) (Some 7))
     = Inr (newJob ''sar'' (sarData ''coherence'' None) ''job-1'' 7 3 5000)"
    by (simp add: addJob_def queueAdd_def validate_defs emptyQueue_def sarData_def)
  have b: "jobId (sarData ''change_detection'' None) = jobId (sarData ''coherence'' None)"
    "jobId (sarData ''coherence'' None) = ''job-1''"
    by (simp_all add: sarData_def)
  have c: "jobId (sarData ''coherence'' None) \<noteq> []"
    by (simp add: sarData_def)
  have v: "validateOptions (jobId (sarData ''change_detection'' None)) 7 = None"
    by (simp add: validate_defs sarData_def)
  have v': "validateOptions (jobId (sarData ''change_detection'' None))
              (case Some (7::nat) of None \<Rightarrow> 5 | Some n \<Rightarrow> n) = None"
    using v by simp
  from duplicate_enqueue_not_rejected [OF a b(1) c, where p' = "Some 7" and r = emptyRedis
      and qn = "''ingest''" and x = "''first''" and x' = "''second''" and now = "''1700000000000''"
      and rnd = "''k3x9q''" and t = "''t1''" and t' = "''t2''"] v'
  have "(\<exists>job. fst (addJob (snd (addJob emptyQueue (sarData ''coherence'' None) (Some 7)))
                 (sarData ''change_detection'' None) (Some 7)) = Inr job
             \<and> job_id job = jobId (sarData ''coherence'' None))
     \<and> snd (addJob (snd (addJob emptyQueue (sarData ''coherence'' None) (Some 7)))
                 (sarData ''change_detection'' None) (Some 7))
       = snd (addJob emptyQueue (sarData ''coherence'' None) (Some 7))"
    by blast
  with a b v show ?thesis by simp
qed

theorem duplicate_enqueue_counterexample:
  "fst (addJob (snd (addJob emptyQueue (sarData ''coherence'' None) (Some 7)))
        (sarData ''coherence'' None) (Some 7))
     = Inr (newJob ''sar'' (sarData ''coherence'' None) ''job-1'' 7 3 5000)
   \<and> fst (addJob (snd (addJob emptyQueue (sarData ''coherence'' None) (Some 7)))
        (sarData ''coherence'' None) (Some 7)) \<noteq> Inl ''DUPLICATE_JOB''
   \<and> fst (enqueue emptyRedis ''ingest'' ''first'' ''1700000000000'' ''k3x9q'' ''t1'')
       = ''job_1700000000000_k3x9q''
   \<and> fst (enqueue (snd (enqueue emptyRedis ''ingest'' ''first'' ''1700000000000'' ''k3x9q'' ''t1''))
          ''ingest'' ''second'' ''1700000000000'' ''k3x9q'' ''t2'')
       = ''job_1700000000000_k3x9q''
   \<and> map_option sj_data
         (keys (snd (enqueue emptyRedis ''ingest'' ''first'' ''1700000000000'' ''k3x9q'' ''t1''))
            ''job:job_1700000000000_k3x9q'') = Some ''first''
   \<and> map_option sj_data
         (keys (snd (enqueue (snd (enqueue emptyRedis ''ingest'' ''first'' ''1700000000000''
                                     ''k3x9q'' ''t1''))
                       ''ingest'' ''second'' ''1700000000000'' ''k3x9q'' ''t2''))
            ''job:job_1700000000000_k3x9q'') = Some ''second''"
  by (simp add: addJob_def queueAdd_def validate_defs emptyQueue_def sarData_def enqueue_def emptyRedis_def Let_def)

text \<open>
  C3 (corrected). The claim: a radar interferometry job with a single source reference
  fails at once with the reason \<open>at least 2 images required\<close> and attempt 0, no retry
  being consumed. The handler throws another message, as an ordinary error, and the retry
  step (modelled from the spec) treats it as any other failure. As amended: every
  execution of the handler on such a job fails; when the fetch of its single input
  succeeds, the reason is \<open>Interferometry requires at least 2 SAR images\<close>, thrown after
  progress 10 and 30. The failure is not fatal: the first failure counts as attempt 1 and
  the job is queued again with a delay of 5000 ms; the job reaches state \<open>failed\<close> only
  with its third failed execution, with attempt count 3 and the reason of that execution.
\<close>

theorem interferometry_single_input:
  assumes "jobType d = ''sar''" and "operation d = ''interferometry''" and "sourceUrls d = Some [u]"
    and "fst (addJob q d p) = Inr j"
  shows "job_data j = d
       \<and> (\<exists>m1 m2 m3.
             fst (processJob e1 d w1) = Inl m1 \<and> fst (processJob e2 d w2) = Inl m2
           \<and> fst (processJob e3 d w3) = Inl m3
           \<and> job_state (failAttempts j [m1]) = Delayed
           \<and> job_attemptsMade (failAttempts j [m1]) = 1
           \<and> job_delay (failAttempts j [m1]) = 5000
           \<and> job_failedReason (failAttempts j [m1]) = Some m1
           \<and> job_state (failAttempts j [m1, m2]) = Delayed
           \<and> job_attemptsMade (failAttempts j [m1, m2]) = 2
           \<and> job_state (failAttempts j [m1, m2, m3]) = Failed
           \<and> job_attemptsMade (failAttempts j [m1, m2, m3]) = 3
           \<and> job_failedReason (failAttempts j [m1, m2, m3]) = Some m3)
       \<and> (mkdir e1 (tempDir e1) = None \<and> (\<exists>buf. downloadFile e1 u = Inr buf)
              \<and> writeFile e1 (sarTempPath e1 (jobId d) 0) = None
          \<longrightarrow> fst (processJob e1 d w1) = Inl ''Interferometry requires at least 2 SAR images''
              \<and> progress (snd (processJob e1 d w1)) = progress w1 @ [10, 30])"
proof -
  have fails: "\<exists>msg. fst (processJob e d w) = Inl msg" for e w
    using assms(1-3)
    by (auto simp: processJob_def analysed_def processSARJob_def sarSwitch_too_few updateProgress_def
        fsWrite_def Let_def split: option.splits sum.splits)
  from fails [of e1 w1] fails [of e2 w2] fails [of e3 w3] obtain m1 m2 m3 where
    m: "fst (processJob e1 d w1) = Inl m1" "fst (processJob e2 d w2) = Inl m2"
      "fst (processJob e3 d w3) = Inl m3"
    by blast
  from addJob_job [OF assms(4)] obtain pr where j: "j = newJob (jobType d) d (jobId d) pr 3 5000"
    by blast
  have r: "job_data j = d"
    "job_state (failAttempts j [m1]) = Delayed"
    "job_attemptsMade (failAttempts j [m1]) = 1"
    "job_delay (failAttempts j [m1]) = 5000"
    "job_failedReason (failAttempts j [m1]) = Some m1"
    "job_state (failAttempts j [m1, m2]) = Delayed"
    "job_attemptsMade (failAttempts j [m1, m2]) = 2"
    "job_state (failAttempts j [m1, m2, m3]) = Failed"
    "job_attemptsMade (failAttempts j [m1, m2, m3]) = 3"
    "job_failedReason (failAttempts j [m1, m2, m3]) = Some m3"
    by (simp_all add: j newJob_def moveToFailed_def exponentialBackoff_def)
  have f: "mkdir e1 (tempDir e1) = None \<and> (\<exists>buf. downloadFile e1 u = Inr buf)
              \<and> writeFile e1 (sarTempPath e1 (jobId d) 0) = None
          \<longrightarrow> fst (processJob e1 d w1) = Inl ''Interferometry requires at least 2 SAR images''
              \<and> progress (snd (processJob e1 d w1)) = progress w1 @ [10, 30]"
    using assms(1-3)
    by (auto simp: processJob_def analysed_def processSARJob_def sarSwitch_too_few updateProgress_def
        fsWrite_def Let_def split: option.splits sum.splits)
  from m r f show ?thesis by blast
qed

theorem interferometry_single_input_witness:
  "jobType (sarData ''interferometry'' (Some [''raw/a.tif''])) = ''sar''
   \<and> operation (sarData ''interferometry'' (Some [''raw/a.tif''])) = ''interferometry''
   \<and> sourceUrls (sarData ''interferometry'' (Some [''raw/a.tif''])) = Some [''raw/a.tif'']
   \<and> fst (addJob emptyQueue (sarData ''interferometry'' (Some [''raw/a.tif''])) (Some 8))
       = Inr (newJob ''sar'' (sarData ''interferometry'' (Some [''raw/a.tif''])) ''job-1'' 8 3 5000)
   \<and> mkdir okEnv (tempDir okEnv) = None \<and> downloadFile okEnv ''raw/a.tif'' = Inr ''bytes''
   \<and> writeFile okEnv (sarTempPath okEnv ''job-1'' 0) = None
   \<and> fst (processJob okEnv (sarData ''interferometry'' (Some [''raw/a.tif''])) emptyWorld)
       = Inl ''Interferometry requires at least 2 SAR images''
   \<and> progress (snd (processJob okEnv (sarData ''interferometry'' (Some [''raw/a.tif''])) emptyWorld))
       = [10, 30]"
proof -
  have a: "fst (addJob emptyQueue (sarData ''interferometry'' (Some [''raw/a.tif''])) (Some 8))
       = Inr (newJob ''sar'' (sarData ''interferometry'' (Some [''raw/a.tif''])) ''job-1'' 8 3 5000)"
    by (simp add: addJob_def queueAdd_def validate_defs emptyQueue_def sarData_def)
  have b: "jobType (sarData ''interferometry'' (Some [''raw/a.tif''])) = ''sar''"
    "operation (sarData ''interferometry'' (Some [''raw/a.tif''])) = ''interferometry''"
    "sourceUrls (sarData ''interferometry'' (Some [''raw/a.tif''])) = Some [''raw/a.tif'']"
    by (simp_all add: sarData_def)
  have c: "mkdir okEnv (tempDir okEnv) = None" "downloadFile okEnv ''raw/a.tif'' = Inr ''bytes''"
    "writeFile okEnv (sarTempPath okEnv ''job-1'' 0) = None"
    "jobId (sarData ''interferometry'' (Some [''raw/a.tif''])) = ''job-1''"
    "progress emptyWorld = []"
    by (simp_all add: okEnv_def sarData_def emptyWorld_def)
  from interferometry_single_input [OF b a, where ?e1.0 = okEnv and ?w1.0 = emptyWorld
      and ?e2.0 = okEnv and ?w2.0 = emptyWorld and ?e3.0 = okEnv and ?w3.0 = emptyWorld]
  have "mkdir okEnv (tempDir okEnv) = None \<and> (\<exists>buf. downloadFile okEnv ''raw/a.tif'' = Inr buf)
      \<and> writeFile okEnv (sarTempPath okEnv
            (jobId (sarData ''interferometry'' (Some [''raw/a.tif'']))) 0) = None
    \<longrightarrow> fst (processJob okEnv (sarData ''interferometry'' (Some [''raw/a.tif''])) emptyWorld)
          = Inl ''Interferometry requires at least 2 SAR images''
        \<and> progress (snd (processJob okEnv (sarData ''interferometry'' (Some [''raw/a.tif'']))
             emptyWorld)) = progress emptyWorld @ [10, 30]"
    by blast
  with a b c show ?thesis by simp
qed

theorem interferometry_reason_counterexample:
  "fst (processJob okEnv (sarData ''interferometry'' (Some [''raw/a.tif''])) emptyWorld)
     = Inl ''Interferometry requires at least 2 SAR images''
   \<and> fst (processJob okEnv (sarData ''interferometry'' (Some [''raw/a.tif''])) emptyWorld)
     \<noteq> Inl ''at least 2 images required''
   \<and> fst (addJob emptyQueue (sarData ''interferometry'' (Some [''raw/a.tif''])) (Some 8))
     = Inr (newJob ''sar'' (sarData ''interferometry'' (Some [''raw/a.tif''])) ''job-1'' 8 3 5000)
   \<and> job_state (moveToFailed ''Interferometry requires at least 2 SAR images''
        (newJob ''sar'' (sarData ''interferometry'' (Some [''raw/a.tif''])) ''job-1'' 8 3 5000))
     = Delayed
   \<and> job_attemptsMade (moveToFailed ''Interferometry requires at least 2 SAR images''
        (newJob ''sar'' (sarData ''interferometry'' (Some [''raw/a.tif''])) ''job-1'' 8 3 5000))
     = 1
   \<and> job_delay (moveToFailed ''Interferometry requires at least 2 SAR images''
        (newJob ''sar'' (sarData ''interferometry'' (Some [''raw/a.tif''])) ''job-1'' 8 3 5000))
     = 5000"
  by (simp add: processJob_def analysed_def processSARJob_def sarSwitch_too_few updateProgress_def
      fsWrite_def sarData_def okEnv_def emptyWorld_def addJob_def queueAdd_def validate_defs
      emptyQueue_def newJob_def moveToFailed_def exponentialBackoff_def)

text \<open>
  C4 (confirmed). Cancelling a job whose state is \<open>completed\<close> or \<open>failed\<close> leaves the queue
  exactly as it was and, the queue being reachable, is answered with \<open>CANNOT_CANCEL\<close>
  (status 404); \<open>cancelJob\<close> itself answers \<open>false\<close>.
\<close>

theorem cancel_terminal_rejected:
  assumes "map_of (jobs q) jid = Some job"
    and "job_state job = Completed \<or> job_state job = Failed"
  shows "snd (deleteJobRoute q jid) = q
       \<and> (redisError q = None \<longrightarrow>
            deleteJobRoute q jid = (Error 404 ''CANNOT_CANCEL'', q)
            \<and> cancelJob q jid = (Inr False, q))"
  using assms
  by (auto simp: deleteJobRoute_def cancelJob_def queueGetJob_def split: option.splits)

theorem cancel_terminal_rejected_witness:
  "map_of (jobs doneQueue) ''job-1'' = Some doneJob
   \<and> job_state doneJob = Completed \<and> redisError doneQueue = None
   \<and> deleteJobRoute doneQueue ''job-1'' = (Error 404 ''CANNOT_CANCEL'', doneQueue)"
proof -
  have a: "map_of (jobs doneQueue) ''job-1'' = Some doneJob"
    by (simp add: doneQueue_def)
  have b: "job_state doneJob = Completed" "redisError doneQueue = None"
    by (simp_all add: doneJob_def doneQueue_def)
  from cancel_terminal_rejected [OF a] a b show ?thesis by simp
qed

text \<open>
  C5 (confirmed). Modelled from the spec for the part the queue library performs. A job
  added by \<open>addJob\<close> has an attempt ceiling of 3 and a base delay of 5000 ms. While it
  fails, it is queued again after a delay of 5000 ms doubled with each failed attempt,
  which never exceeds 10000 ms; once it has failed three times it is in state \<open>failed\<close>,
  with the reason of the third failure, however many further failures are offered.
\<close>

theorem retry_policy:
  assumes "fst (addJob q d p) = Inr j"
  shows "job_attempts j = 3 \<and> job_backoffDelay j = 5000 \<and>
    (\<forall>rs. rs \<noteq> [] \<and> length rs < 3 \<longrightarrow>
       job_state (failAttempts j rs) = Delayed \<and>
       job_delay (failAttempts j rs) = 5000 * 2 ^ (length rs - 1) \<and>
       job_delay (failAttempts j rs) \<le> 10000 \<and>
       job_failedReason (failAttempts j rs) = Some (last rs)) \<and>
    (\<forall>rs. 3 \<le> length rs \<longrightarrow>
       job_state (failAttempts j rs) = Failed \<and>
       job_failedReason (failAttempts j rs) = Some (rs ! 2) \<and>
       job_attemptsMade (failAttempts j rs) = 3)"
proof -
  from addJob_job [OF assms] obtain pr where j: "j = newJob (jobType d) d (jobId d) pr 3 5000"
    by blast
  have "job_attempts j = 3" "job_backoffDelay j = 5000"
    by (simp_all add: j newJob_def)
  moreover have "\<forall>rs. rs \<noteq> [] \<and> length rs < 3 \<longrightarrow>
       job_state (failAttempts j rs) = Delayed \<and>
       job_delay (failAttempts j rs) = 5000 * 2 ^ (length rs - 1) \<and>
       job_delay (failAttempts j rs) \<le> 10000 \<and>
       job_failedReason (failAttempts j rs) = Some (last rs)"
    unfolding j using fail_new_short by blast
  moreover have "\<forall>rs. 3 \<le> length rs \<longrightarrow>
       job_state (failAttempts j rs) = Failed \<and>
       job_failedReason (failAttempts j rs) = Some (rs ! 2) \<and>
       job_attemptsMade (failAttempts j rs) = 3"
    unfolding j using fail_new_long by blast
  ultimately show ?thesis by blast
qed

theorem retry_policy_witness:
  "fst (addJob emptyQueue (sarData ''coherence'' None) (Some 7))
     = Inr (newJob ''sar'' (sarData ''coherence'' None) ''job-1'' 7 3 5000)
   \<and> job_state (failAttempts (newJob ''sar'' (sarData ''coherence'' None) ''job-1'' 7 3 5000)
        [''timeout'', ''timeout'']) = Delayed
   \<and> job_delay (failAttempts (newJob ''sar'' (sarData ''coherence'' None) ''job-1'' 7 3 5000)
        [''timeout'', ''timeout'']) = 10000
   \<and> job_state (failAttempts (newJob ''sar'' (sarData ''coherence'' None) ''job-1'' 7 3 5000)
        [''timeout'', ''timeout'', ''503'']) = Failed
   \<and> job_failedReason (failAttempts (newJob ''sar'' (sarData ''coherence'' None) ''job-1'' 7 3 5000)
        [''timeout'', ''timeout'', ''503'']) = Some ''503''"
proof -
  have a: "fst (addJob emptyQueue (sarData ''coherence'' None) (Some 7))
     = Inr (newJob ''sar'' (sarData ''coherence'' None) ''job-1'' 7 3 5000)"
    by (simp add: addJob_def queueAdd_def validate_defs emptyQueue_def sarData_def)
  from retry_policy [OF a] have
    s: "\<forall>rs. rs \<noteq> [] \<and> length rs < 3 \<longrightarrow>
       job_state (failAttempts (newJob ''sar'' (sarData ''coherence'' None) ''job-1'' 7 3 5000) rs)
         = Delayed \<and>
       job_delay (failAttempts (newJob ''sar'' (sarData ''coherence'' None) ''job-1'' 7 3 5000) rs)
         = 5000 * 2 ^ (length rs - 1)"
    and l: "\<forall>rs. 3 \<le> length rs \<longrightarrow>
       job_state (failAttempts (newJob ''sar'' (sarData ''coherence'' None) ''job-1'' 7 3 5000) rs)
         = Failed \<and>
       job_failedReason (failAttempts (newJob ''sar'' (sarData ''coherence'' None) ''job-1'' 7 3 5000) rs)
         = Some (rs ! 2)"
    by blast+
  from s [rule_format, of "[''timeout'', ''timeout'']"]
    l [rule_format, of "[''timeout'', ''timeout'', ''503'']"] a
  show ?thesis by simp
qed

text \<open>
  C6 (the code departs from the claim). The claim, like the comments of the source
  (\<open>10 = highest\<close>), has the job with the larger priority number start first. \<open>addJob\<close>
  hands the number to the queue library as it is, and the library serves the smaller
  number first: of a waiting job of priority 9 and a waiting job of priority 5 added after
  it, the job of priority 5 is the next to be dispatched.
\<close>

theorem lower_priority_number_served_first:
  "map_option job_id
     (nextJob (snd (addJob (snd (addJob emptyQueue ((sarData ''coherence'' None)\<lparr>jobId := ''job-9''\<rparr>)
                                  (Some 9)))
                     ((sarData ''coherence'' None)\<lparr>jobId := ''job-5''\<rparr>) (Some 5))))
   = Some ''job-5''"
  by (simp add: nextJob_def addJob_def queueAdd_def validate_defs emptyQueue_def sarData_def newJob_def)

text \<open>
  C7 (the code departs from the claim). The claim: temporary files are removed on the
  success path and on every failure path. The SAR processor removes them only on the
  success path: a run that fails after the download, for want of a second image or for a
  failing compute call, leaves its temp files on disk, while a successful run leaves none. (The
  LiDAR processing handler removes its file on both paths, see \<open>lidar_cleanup\<close>.)
\<close>

theorem sar_failure_leaves_temp_files:
  "fst (processJob okEnv (sarData ''interferometry'' (Some [''raw/a.tif''])) emptyWorld)
     = Inl ''Interferometry requires at least 2 SAR images''
   \<and> files (snd (processJob okEnv (sarData ''interferometry'' (Some [''raw/a.tif''])) emptyWorld))
     = {''/tmp/geoagent/job-1_sar_0.tif''}
   \<and> files (snd (processJob mlDownEnv
        (sarData ''interferometry'' (Some [''raw/a.tif'', ''raw/b.tif''])) emptyWorld))
     = {''/tmp/geoagent/job-1_sar_0.tif'', ''/tmp/geoagent/job-1_sar_1.tif''}
   \<and> files (snd (processJob okEnv
        (sarData ''interferometry'' (Some [''raw/a.tif'', ''raw/b.tif''])) emptyWorld)) = {}"
  by (simp add: processJob_def analysed_def processSARJob_def sarSwitch_def sarCase_def updateProgress_def
      fsWrite_def sarData_def okEnv_def mlDownEnv_def emptyWorld_def sarTempPath_def string_of_nat.simps
      digit_def unlinkQuiet_def putDocument_def insert_commute)

text \<open>
  C8 (corrected). The claim: within one execution attempt the reported progress values are
  non-decreasing, stay within 0 to 100 and end at 100 on the success path, and progress
  resets to 0 at the start of each retry attempt. No handler ever reports 0. As amended:
  the values reported by one execution of the job processor are non-decreasing, at most
  100, and end at 100 when the handler returns a result; a new attempt starts its reports
  at the first checkpoint of the handler, 10 (50 for fusion), and 0 is never reported.
\<close>

theorem progress_checkpoints:
  "\<exists>tr. progress (snd (processJob e d w)) = progress w @ tr
     \<and> sorted tr \<and> (\<forall>p \<in> set tr. p \<le> 100)
     \<and> ((\<exists>r. fst (processJob e d w) = Inr r) \<longrightarrow> tr \<noteq> [] \<and> last tr = 100)
     \<and> (tr \<noteq> [] \<longrightarrow> hd tr = 10 \<or> hd tr = 50)
     \<and> 0 \<notin> set tr"
proof -
  consider (lidar) "jobType d = ''lidar''" | (spectral) "jobType d = ''spectral''"
    | (sar) "jobType d = ''sar''" | (thermal) "jobType d = ''thermal''"
    | (fusion) "jobType d = ''fusion''"
    | (other) "jobType d \<notin> {''lidar'', ''spectral'', ''sar'', ''thermal'', ''fusion''}"
    by blast
  then show ?thesis
  proof cases
    case lidar
    obtain r w' where x: "processLiDARJob e d w = (r, w')" by (cases "processLiDARJob e d w")
    from lidar_trace [of e d w] x lidarTraces_good lidar show ?thesis
      by (auto simp: processJob_def analysed_def split: sum.splits)
  next
    case spectral
    obtain r w' where x: "processSpectralJob e d w = (r, w')" by (cases "processSpectralJob e d w")
    from spectral_trace [of e d w] x spectral show ?thesis
      by (auto simp: processJob_def analysed_def split: sum.splits)
  next
    case sar
    obtain r w' where x: "processSARJob e d w = (r, w')" by (cases "processSARJob e d w")
    from sar_trace [of e d w] x sar show ?thesis
      by (auto simp: processJob_def analysed_def split: sum.splits)
  next
    case thermal
    obtain r w' where x: "processThermalJob e d w = (r, w')" by (cases "processThermalJob e d w")
    from thermal_trace [of e d w] x thermal show ?thesis
      by (auto simp: processJob_def analysed_def split: sum.splits)
  next
    case fusion
    then show ?thesis
      by (auto simp: processJob_def processFusionJob_def updateProgress_def)
  next
    case other
    then show ?thesis
      by (auto simp: processJob_def)
  qed
qed

theorem progress_checkpoints_witness:
  "(\<exists>r. fst (processJob okEnv (sarData ''coherence'' (Some [''raw/a.tif'', ''raw/b.tif''])) emptyWorld)
          = Inr r)
   \<and> progress (snd (processJob okEnv (sarData ''coherence'' (Some [''raw/a.tif'', ''raw/b.tif'']))
        emptyWorld)) = [10, 30, 80, 100]
   \<and> sorted (progress (snd (processJob okEnv
               (sarData ''coherence'' (Some [''raw/a.tif'', ''raw/b.tif''])) emptyWorld)))
   \<and> last (progress (snd (processJob okEnv
               (sarData ''coherence'' (Some [''raw/a.tif'', ''raw/b.tif''])) emptyWorld))) = 100"
proof -
  have a: "\<exists>r. fst (processJob okEnv (sarData ''coherence'' (Some [''raw/a.tif'', ''raw/b.tif'']))
                 emptyWorld) = Inr r"
    by (simp add: processJob_def analysed_def processSARJob_def sarSwitch_def sarCase_def
        sarData_def okEnv_def)
  have b: "progress (snd (processJob okEnv (sarData ''coherence'' (Some [''raw/a.tif'', ''raw/b.tif'']))
        emptyWorld)) = [10, 30, 80, 100]"
    by (simp add: processJob_def analysed_def processSARJob_def sarSwitch_def sarCase_def
        sarData_def okEnv_def emptyWorld_def updateProgress_def fsWrite_def putDocument_def)
  from progress_checkpoints [of okEnv "sarData ''coherence'' (Some [''raw/a.tif'', ''raw/b.tif''])"
      emptyWorld] a b
  show ?thesis by (auto simp: emptyWorld_def)
qed

theorem progress_reset_counterexample:
  "fst (processJob mlDownEnv (sarData ''coherence'' (Some [''raw/a.tif'', ''raw/b.tif''])) emptyWorld)
     = Inl ''timeout of 60000ms exceeded''
   \<and> progress (snd (processJob mlDownEnv
        (sarData ''coherence'' (Some [''raw/a.tif'', ''raw/b.tif''])) emptyWorld)) = [10, 30]
   \<and> progress (snd (processJob okEnv (sarData ''coherence'' (Some [''raw/a.tif'', ''raw/b.tif'']))
        (snd (processJob mlDownEnv
           (sarData ''coherence'' (Some [''raw/a.tif'', ''raw/b.tif''])) emptyWorld))))
     = [10, 30, 10, 30, 80, 100]"
  by (simp add: processJob_def analysed_def processSARJob_def sarSwitch_def sarCase_def
      sarData_def okEnv_def mlDownEnv_def emptyWorld_def updateProgress_def fsWrite_def putDocument_def)

text \<open>
  C9 (confirmed). A SAR job accepted by the ingest or the change route (under a fresh job
  id) is stored with operation \<open>ingest\<close> or \<open>change\<close> and without \<open>sourceUrls\<close>. The switch
  of the SAR processor has no case for either: every execution of the job processor on
  such a job throws, and unless the creation of the temp directory fails first, the error
  is \<open>Unknown SAR operation: \<close> followed by the operation.
\<close>

theorem sar_ingest_change_never_complete:
  assumes "(fst (postSarIngest q upload file me jid uid) = Accepted jid
              \<and> q' = snd (postSarIngest q upload file me jid uid))
         \<or> (fst (postSarChange q before after jid uid) = Accepted jid
              \<and> q' = snd (postSarChange q before after jid uid))"
    and "map_of (jobs q) jid = None"
  shows "\<exists>job. map_of (jobs q') jid = Some job
           \<and> jobType (job_data job) = ''sar''
           \<and> (operation (job_data job) = ''ingest'' \<or> operation (job_data job) = ''change'')
           \<and> (\<forall>e w. (\<exists>msg. fst (processJob e (job_data job) w) = Inl msg)
                  \<and> (mkdir e (tempDir e) = None \<longrightarrow>
                       fst (processJob e (job_data job) w)
                         = Inl (''Unknown SAR operation: '' @ operation (job_data job))))"
proof -
  have "\<exists>d pr. map_of (jobs q') jid = Some (newJob ''sar'' d jid pr 3 5000)
          \<and> jobType d = ''sar'' \<and> (operation d = ''ingest'' \<or> operation d = ''change'')
          \<and> sourceUrls d = None"
    using assms(1)
  proof (elim disjE conjE)
    assume a: "fst (postSarIngest q upload file me jid uid) = Accepted jid"
      and q': "q' = snd (postSarIngest q upload file me jid uid)"
    from postSarIngest_accepted [OF a] obtain minioPath j where
      j: "fst (addJob q (sarIngestData jid uid minioPath) (Some 5)) = Inr j"
      and s: "q' = snd (addJob q (sarIngestData jid uid minioPath) (Some 5))"
      using q' by auto
    have i: "jobId (sarIngestData jid uid minioPath) = jid"
      by (simp add: sarIngestData_def)
    from addJob_fresh [OF _ j] assms(2) i s
    have "map_of (jobs q') jid = Some (newJob ''sar'' (sarIngestData jid uid minioPath) jid 5 3 5000)"
      by (simp add: sarIngestData_def)
    then show ?thesis
      by (auto simp: sarIngestData_def)
  next
    assume a: "fst (postSarChange q before after jid uid) = Accepted jid"
      and q': "q' = snd (postSarChange q before after jid uid)"
    from postSarChange_accepted [OF a] obtain b c j where
      j: "fst (addJob q (sarChangeData jid uid b c) (Some 7)) = Inr j"
      and s: "q' = snd (addJob q (sarChangeData jid uid b c) (Some 7))"
      using q' by auto
    have i: "jobId (sarChangeData jid uid b c) = jid"
      by (simp add: sarChangeData_def)
    from addJob_fresh [OF _ j] assms(2) i s
    have "map_of (jobs q') jid = Some (newJob ''sar'' (sarChangeData jid uid b c) jid 7 3 5000)"
      by (simp add: sarChangeData_def)
    then show ?thesis
      by (auto simp: sarChangeData_def)
  qed
  then obtain d pr where j: "map_of (jobs q') jid = Some (newJob ''sar'' d jid pr 3 5000)"
    and t: "jobType d = ''sar''" and o: "operation d = ''ingest'' \<or> operation d = ''change''"
    and u: "sourceUrls d = None"
    by blast
  from o have n: "operation d \<noteq> ''interferometry''" "operation d \<noteq> ''coherence''"
      "operation d \<noteq> ''change_detection''"
    by auto
  have "job_data (newJob ''sar'' d jid pr 3 5000) = d"
    by (simp add: newJob_def)
  with j t o unknown_sar_never_completes [OF t n] unknown_sar_message [OF t n u]
  show ?thesis by auto
qed

theorem sar_ingest_change_never_complete_witness:
  "fst (postSarIngest emptyQueue (\<lambda>p. Inr p) (Some ''scene.tif'') None ''job-7'' ''anonymous'')
     = Accepted ''job-7''
   \<and> map_of (jobs emptyQueue) ''job-7'' = None
   \<and> mkdir okEnv (tempDir okEnv) = None
   \<and> (\<exists>job. map_of (jobs (snd (postSarIngest emptyQueue (\<lambda>p. Inr p) (Some ''scene.tif'') None
                  ''job-7'' ''anonymous''))) ''job-7'' = Some job
          \<and> fst (processJob okEnv (job_data job) emptyWorld) = Inl ''Unknown SAR operation: ingest'')"
proof -
  have a: "fst (postSarIngest emptyQueue (\<lambda>p. Inr p) (Some ''scene.tif'') None ''job-7'' ''anonymous'')
     = Accepted ''job-7''"
    by (simp add: postSarIngest_def addJob_def queueAdd_def validate_defs emptyQueue_def
        sarIngestData_def)
  have b: "map_of (jobs emptyQueue) ''job-7'' = None"
    by (simp add: emptyQueue_def)
  have c: "mkdir okEnv (tempDir okEnv) = None"
    by (simp add: okEnv_def)
  have d: "map_of (jobs (snd (postSarIngest emptyQueue (\<lambda>p. Inr p) (Some ''scene.tif'') None
                  ''job-7'' ''anonymous''))) ''job-7''
      = Some (newJob ''sar'' (sarIngestData ''job-7'' ''anonymous'' ''raw/job-7/scene.tif'')
                ''job-7'' 5 3 5000)"
    by (simp add: postSarIngest_def addJob_def queueAdd_def validate_defs emptyQueue_def sarIngestData_def)
  from sar_ingest_change_never_complete [of emptyQueue "\<lambda>p. Inr p" "Some ''scene.tif''" None "''job-7''"
      "''anonymous''" "snd (postSarIngest emptyQueue (\<lambda>p. Inr p) (Some ''scene.tif'') None
                  ''job-7'' ''anonymous'')"] a b
  obtain job where j: "map_of (jobs (snd (postSarIngest emptyQueue (\<lambda>p. Inr p) (Some ''scene.tif'') None
                  ''job-7'' ''anonymous''))) ''job-7'' = Some job"
    and m: "mkdir okEnv (tempDir okEnv) = None \<longrightarrow>
              fst (processJob okEnv (job_data job) emptyWorld)
                = Inl (''Unknown SAR operation: '' @ operation (job_data job))"
    by blast
  from j d have "job = newJob ''sar'' (sarIngestData ''job-7'' ''anonymous'' ''raw/job-7/scene.tif'')
                ''job-7'' 5 3 5000"
    by simp
  then have "operation (job_data job) = ''ingest''"
    by (simp add: newJob_def sarIngestData_def)
  with a b c j m show ?thesis by auto
qed


text \<open>
  C10 (confirmed). A successful cancellation removes the job from the queue: no record is
  left under the job id, and after any further requests that do not add a job with that
  id again, the status route answers \<open>JOB_NOT_FOUND\<close> (status 404).
\<close>

theorem cancelled_job_not_found:
  assumes "fst (deleteJobRoute q jid) = Cancelled jid"
    and "\<forall>r \<in> set rs. \<not> addsJob jid r"
  shows "map_of (jobs (snd (deleteJobRoute q jid))) jid = None
       \<and> getJobRoute (serveAll (snd (deleteJobRoute q jid)) rs) jid = Error 404 ''JOB_NOT_FOUND''"
proof -
  from cancel_removes [OF assms(1)]
  have a: "map_of (jobs (snd (deleteJobRoute q jid))) jid = None"
    and b: "redisError (snd (deleteJobRoute q jid)) = None"
    by simp_all
  from serveAll_keeps_absent [OF a assms(2)] a b
  show ?thesis by (simp add: getJobRoute_def getJob_def queueGetJob_def)
qed

theorem cancelled_job_not_found_witness:
  "fst (deleteJobRoute (snd (addJob emptyQueue (sarData ''coherence'' None) (Some 7))) ''job-1'')
     = Cancelled ''job-1''
   \<and> addsJob ''job-1'' (GetJob ''job-1'') = False
   \<and> addsJob ''job-1'' (DeleteJob ''job-1'') = False
   \<and> addsJob ''job-1'' (AddJob (lidarData ''job-2'') None) = False
   \<and> getJobRoute (snd (addJob emptyQueue (sarData ''coherence'' None) (Some 7))) ''job-1''
       = JobStatus (newJob ''sar'' (sarData ''coherence'' None) ''job-1'' 7 3 5000)
   \<and> getJobRoute
       (serveAll (snd (deleteJobRoute (snd (addJob emptyQueue (sarData ''coherence'' None) (Some 7)))
                         ''job-1''))
          [GetJob ''job-1'', DeleteJob ''job-1'', AddJob (lidarData ''job-2'') None]) ''job-1''
       = Error 404 ''JOB_NOT_FOUND''"
proof -
  have a: "fst (deleteJobRoute (snd (addJob emptyQueue (sarData ''coherence'' None) (Some 7))) ''job-1'')
     = Cancelled ''job-1''"
    by (simp add: deleteJobRoute_def cancelJob_def queueGetJob_def jobRemove_def addJob_def
        queueAdd_def validate_defs emptyQueue_def sarData_def newJob_def)
  have b: "\<forall>r \<in> set [GetJob ''job-1'', DeleteJob ''job-1'', AddJob (lidarData ''job-2'') None].
         \<not> addsJob ''job-1'' r"
    by (simp add: lidarData_def)
  have c: "getJobRoute (snd (addJob emptyQueue (sarData ''coherence'' None) (Some 7))) ''job-1''
       = JobStatus (newJob ''sar'' (sarData ''coherence'' None) ''job-1'' 7 3 5000)"
    by (simp add: getJobRoute_def getJob_def queueGetJob_def addJob_def queueAdd_def validate_defs emptyQueue_def
        sarData_def)
  from cancelled_job_not_found [OF a b] a b c show ?thesis by simp
qed

end
